theory Spec2Isabelle
  imports
    Complex_Main
    "HOL-Library.Char_ord"
    "HOL-Library.List_Lexorder"
    "HOL-Library.Product_Lexorder"
begin

section \<open>The source table\<close>

text \<open>
  Modelled from the spec: the row type of the CSV that \<^verbatim>\<open>pd.read_csv(url)\<close> loads. The
  file itself is not part of the repository, so the table \<^verbatim>\<open>df\<close> is a parameter of every
  function below and its columns are typed as the data model states them: year (integer),
  season, sport, team and sex (strings, always present) and medal (optional: the cell is
  empty, NaN in pandas, for an entry without a medal). Only the six columns that the
  program reads are kept.
\<close>

record athlete =
  year :: int
  season :: string
  sport :: string
  team :: string
  sex :: string
  medal :: "string option"

type_synonym table = "athlete list"

text \<open>
  Python's truth test on an optional string (\<^verbatim>\<open>if sport:\<close>, \<^verbatim>\<open>if hovered_team:\<close>,
  \<^verbatim>\<open>selected_sport or 'All'\<close>): \<^verbatim>\<open>None\<close> and the empty string are both false.
\<close>

definition truthy :: "string option \<Rightarrow> bool" where
  "truthy v = (case v of None \<Rightarrow> False | Some s \<Rightarrow> s \<noteq> [])"

text \<open>
  The selection that passes the truth test: the empty string selects nothing, as
  \<^verbatim>\<open>None\<close> does.
\<close>

definition chosen :: "string option \<Rightarrow> string option" where
  "chosen v = (if truthy v then v else None)"

text \<open>
  \<^verbatim>\<open>if v: frame = frame[frame[col] == v]\<close>: the boolean-index restriction that each of
  the functions applies for an optional selection.
\<close>

definition restrict_to :: "(athlete \<Rightarrow> string) \<Rightarrow> string option \<Rightarrow> table \<Rightarrow> table" where
  "restrict_to col v rows =
     (case v of
        None \<Rightarrow> rows
      | Some s \<Rightarrow> if s \<noteq> [] then filter (\<lambda>r. col r = s) rows else rows)"

text \<open>
  \<^verbatim>\<open>groupby(keys)\<close> with the defaults \<^verbatim>\<open>sort=True, dropna=True\<close>: one group per
  distinct key, the groups in ascending key order. Rows whose key is missing are dropped
  before the call (see \<open>update_sunburst\<close>), the other key columns are never missing.
\<close>

definition group_keys :: "('r \<Rightarrow> 'k::linorder) \<Rightarrow> 'r list \<Rightarrow> 'k list" where
  "group_keys key rows = sort (remdups (map key rows))"

definition group_rows :: "('r \<Rightarrow> 'k) \<Rightarrow> 'r list \<Rightarrow> 'k \<Rightarrow> 'r list" where
  "group_rows key rows k = filter (\<lambda>r. key r = k) rows"

section \<open>float64 results\<close>

text \<open>
  The percentage column is a float64 column. A finite value is modelled by the real
  number that it approximates (rounding is not modelled); the two special results of a
  pandas division by zero are kept:
  \<^verbatim>\<open>0 / 0\<close> is NaN and \<^verbatim>\<open>n / 0\<close> for \<^verbatim>\<open>n > 0\<close> is \<^verbatim>\<open>inf\<close> (pandas does not raise).
\<close>

datatype float64 = Num real | PosInf | NaN

definition fdiv :: "nat \<Rightarrow> nat \<Rightarrow> float64" where
  "fdiv a b = (if b = 0 then (if a = 0 then NaN else PosInf) else Num (real a / real b))"

fun fmul :: "float64 \<Rightarrow> real \<Rightarrow> float64" where
  "fmul (Num x) c = Num (x * c)"
| "fmul PosInf c = PosInf"
| "fmul NaN c = NaN"

section \<open>The aggregator \<^verbatim>\<open>calculate_team_stats\<close>\<close>

record team_row =
  stats_team :: string
  total_athletes :: nat
  female_athletes :: nat
  female_percentage :: float64

text \<open>
  Lines 49-51: \<^verbatim>\<open>df[(df['year'] == year) & (df['season'] == 'Summer')]\<close>, then the
  sport restriction under \<^verbatim>\<open>if sport:\<close>.
\<close>

definition team_stats_filter :: "table \<Rightarrow> int \<Rightarrow> string option \<Rightarrow> table" where
  "team_stats_filter df y sp =
     restrict_to sport sp (filter (\<lambda>r. year r = y \<and> season r = ''Summer'') df)"

text \<open>
  Lines 54-60 for one group: \<^verbatim>\<open>('sex', 'count')\<close> counts the cells of the sex column
  that are present (all of them, the column has no missing cell), the lambda counts the
  cells equal to \<^verbatim>\<open>'F'\<close>, and the percentage is \<^verbatim>\<open>(female / total) * 100\<close>.
\<close>

definition team_agg :: "table \<Rightarrow> string \<Rightarrow> team_row" where
  "team_agg rows t =
     (let x = map sex (group_rows team rows t);
          total = length x;
          female = length (filter (\<lambda>v. v = ''F'') x)
      in \<lparr>stats_team = t, total_athletes = total, female_athletes = female,
          female_percentage = fmul (fdiv female total) 100\<rparr>)"

definition calculate_team_stats :: "table \<Rightarrow> int \<Rightarrow> string option \<Rightarrow> team_row list" where
  "calculate_team_stats df y sp =
     (let df_filtered = team_stats_filter df y sp
      in map (team_agg df_filtered) (group_keys team df_filtered))"

text \<open>
  The aggregator as the specification words it (\<open>computeTeamStats(year, sport?)\<close>):
  filter to the Summer rows of the year, and to the sport when one is given; group by
  team; per team the number of rows, the number of rows with sex F, and
  female / total * 100. It is stated on sets and separate filters, independently of
  \<open>calculate_team_stats\<close>, to be compared with it.
\<close>

definition computeTeamStats :: "table \<Rightarrow> int \<Rightarrow> string option \<Rightarrow> team_row set" where
  "computeTeamStats df y sp =
     (let rows = filter (\<lambda>r. season r = ''Summer'' \<and> year r = y
                             \<and> (case sp of None \<Rightarrow> True | Some s \<Rightarrow> sport r = s)) df
      in (\<lambda>t. let total = length (filter (\<lambda>r. team r = t) rows);
                  female = length (filter (\<lambda>r. team r = t \<and> sex r = ''F'') rows)
              in \<lparr>stats_team = t, total_athletes = total, female_athletes = female,
                  female_percentage = Num (real female / real total * 100)\<rparr>)
         ` team ` set rows)"

section \<open>The choropleth builder \<^verbatim>\<open>update_map\<close>\<close>

datatype error = ValueError | KeyError | IndexError | TypeError

text \<open>
  \<^verbatim>\<open>Series.idxmax()\<close> on the (label, value) cells of a column that are present:
  the label of the first occurrence of the maximum, and \<^verbatim>\<open>ValueError\<close>
  ("attempt to get argmax of an empty sequence") when there is no cell.
\<close>

fun first_max :: "nat \<times> 'k::linorder \<Rightarrow> (nat \<times> 'k) list \<Rightarrow> nat" where
  "first_max (i, b) [] = i"
| "first_max (i, b) ((j, x) # rest) =
     (if b < x then first_max (j, x) rest else first_max (i, b) rest)"

definition idxmax :: "(nat \<times> 'k::linorder) list \<Rightarrow> error + nat" where
  "idxmax cells = (case cells of [] \<Rightarrow> Inl ValueError | c # rest \<Rightarrow> Inr (first_max c rest))"

text \<open>
  The cells of a float64 column: NaN is a missing cell (\<^verbatim>\<open>skipna=True\<close>), \<^verbatim>\<open>inf\<close> is
  above every number.
\<close>

fun float_key :: "float64 \<Rightarrow> nat \<times> real" where
  "float_key (Num x) = (0, x)"
| "float_key PosInf = (1, 0)"
| "float_key NaN = (0, 0)"

definition float_cells :: "float64 list \<Rightarrow> (nat \<times> nat \<times> real) list" where
  "float_cells col = map (\<lambda>(i, v). (i, float_key v)) (filter (\<lambda>(i, v). v \<noteq> NaN) (enumerate 0 col))"

text \<open>\<^verbatim>\<open>frame.loc[label]\<close> on a frame with the default labels \<open>0, 1, ...\<close>.\<close>

definition loc :: "'r list \<Rightarrow> nat \<Rightarrow> error + 'r" where
  "loc rows i = (if i < length rows then Inr (rows ! i) else Inl KeyError)"

text \<open>
  The figure, as the data that the builder hands to plotly: the frame of
  \<^verbatim>\<open>px.choropleth\<close> (location: team, colour: female_percentage on the fixed range 0 to
  100 with midpoint 50), the custom data of the hover tooltip, the two rows named by the
  annotation, and the year and sport of the title. Colour scales, fonts and geometry are
  constants of the source and are left out.
\<close>

record choropleth =
  choropleth_frame :: "team_row list"
  customdata :: "nat list"
  max_female :: team_row
  max_female_percentage :: team_row
  choropleth_title :: "int \<times> string"

definition choropleth_figure :: "team_row list \<Rightarrow> int \<Rightarrow> string option \<Rightarrow> error + choropleth" where
  "choropleth_figure team_stats_df selected_year selected_sport =
     (case idxmax (enumerate 0 (map female_athletes team_stats_df)) of
        Inl e \<Rightarrow> Inl e
      | Inr i \<Rightarrow>
     (case loc team_stats_df i of
        Inl e \<Rightarrow> Inl e
      | Inr mf \<Rightarrow>
     (case idxmax (float_cells (map female_percentage team_stats_df)) of
        Inl e \<Rightarrow> Inl e
      | Inr j \<Rightarrow>
     (case loc team_stats_df j of
        Inl e \<Rightarrow> Inl e
      | Inr mp \<Rightarrow>
          Inr \<lparr>choropleth_frame = team_stats_df,
               customdata = map female_athletes team_stats_df,
               max_female = mf,
               max_female_percentage = mp,
               choropleth_title =
                 (selected_year,
                  case selected_sport of
                    None \<Rightarrow> ''All''
                  | Some s \<Rightarrow> if s \<noteq> [] then s else ''All'')\<rparr>))))"

text \<open>Line 130, then lines 133-201.\<close>

definition update_map :: "table \<Rightarrow> int \<Rightarrow> string option \<Rightarrow> error + choropleth" where
  "update_map df selected_year selected_sport =
     choropleth_figure (calculate_team_stats df selected_year selected_sport)
       selected_year selected_sport"

section \<open>The hover event\<close>

text \<open>
  \<^verbatim>\<open>hoverData\<close> of the choropleth panel: \<^verbatim>\<open>None\<close> before any hover, otherwise a dict.
  The dict is empty, or non-empty without a \<^verbatim>\<open>'points'\<close> entry, or it has the entry: a
  list of point dicts, each given by its \<^verbatim>\<open>'location'\<close> entry when it has one. Dash
  sends \<open>Some (Points [Some team])\<close>.
\<close>

datatype hover = EmptyDict | NoPoints | Points "string option list"

text \<open>\<^verbatim>\<open>hover_data['points'][0]['location']\<close>\<close>

definition first_location :: "hover \<Rightarrow> error + string option" where
  "first_location h =
     (case h of
        Points (Some l # ps) \<Rightarrow> Inr (Some l)
      | Points (None # ps) \<Rightarrow> Inl KeyError
      | Points [] \<Rightarrow> Inl IndexError
      | _ \<Rightarrow> Inl KeyError)"

text \<open>
  Line 213: \<^verbatim>\<open>... if hover_data and 'points' in hover_data else None\<close>, and line 287:
  \<^verbatim>\<open>... if hover_data else None\<close>, which looks the entry up in every non-empty dict.
\<close>

definition hovered_team_line :: "hover option \<Rightarrow> error + string option" where
  "hovered_team_line hover_data =
     (case hover_data of
        Some (Points ps) \<Rightarrow> first_location (Points ps)
      | _ \<Rightarrow> Inr None)"

definition hovered_team_sunburst :: "hover option \<Rightarrow> error + string option" where
  "hovered_team_sunburst hover_data =
     (case hover_data of
        None \<Rightarrow> Inr None
      | Some EmptyDict \<Rightarrow> Inr None
      | Some h \<Rightarrow> first_location h)"

section \<open>The line-chart builder \<^verbatim>\<open>update_line_chart\<close>\<close>

text \<open>\<^verbatim>\<open>groupby(keys).size().reset_index(name='count')\<close>\<close>

definition group_sizes :: "('r \<Rightarrow> 'k::linorder) \<Rightarrow> 'r list \<Rightarrow> ('k \<times> nat) list" where
  "group_sizes key rows = map (\<lambda>k. (k, length (group_rows key rows k))) (group_keys key rows)"

record trace =
  trace_name :: string
  trace_x :: "int list"
  trace_y :: "nat list"
  trace_color :: string

record line_chart =
  traces :: "trace list"
  vline :: int
  line_title :: string

text \<open>Lines 216-220: the Summer rows, then the team and the sport restrictions.\<close>

definition line_filter :: "table \<Rightarrow> string option \<Rightarrow> string option \<Rightarrow> table" where
  "line_filter df hovered_team selected_sport =
     restrict_to sport selected_sport
       (restrict_to team hovered_team (filter (\<lambda>r. season r = ''Summer'') df))"

text \<open>Lines 227-236: one \<^verbatim>\<open>go.Scatter\<close> per gender of the zip, F then M.\<close>

definition scatter :: "((int \<times> string) \<times> nat) list \<Rightarrow> string \<times> string \<Rightarrow> trace" where
  "scatter gender_data gc =
     \<lparr>trace_name = (if fst gc = ''F'' then ''Female'' else ''Male''),
      trace_x = map (\<lambda>((y, s), n). y) gender_data,
      trace_y = map (\<lambda>((y, s), n). n) gender_data,
      trace_color = snd gc\<rparr>"

definition gender_trace :: "((int \<times> string) \<times> nat) list \<Rightarrow> string \<times> string \<Rightarrow> trace" where
  "gender_trace athlete_counts gc =
     scatter (filter (\<lambda>((y, s), n). s = fst gc) athlete_counts) gc"

text \<open>Line 243.\<close>

definition line_chart_title :: "string option \<Rightarrow> string" where
  "line_chart_title hovered_team =
     ''Athlete Count by Gender Over Time '' @
       (case hovered_team of
          None \<Rightarrow> ''Globally''
        | Some t \<Rightarrow> if t \<noteq> [] then ''for '' @ t else ''Globally'')"

definition update_line_chart ::
    "table \<Rightarrow> hover option \<Rightarrow> int \<Rightarrow> string option \<Rightarrow> error + line_chart" where
  "update_line_chart df hover_data selected_year selected_sport =
     (case hovered_team_line hover_data of
        Inl e \<Rightarrow> Inl e
      | Inr hovered_team \<Rightarrow>
          let df_filtered = line_filter df hovered_team selected_sport;
              athlete_counts = group_sizes (\<lambda>r. (year r, sex r)) df_filtered
          in Inr \<lparr>traces = map (gender_trace athlete_counts)
                              (zip [''F'', ''M''] [''darkblue'', ''darkred'']),
                  vline = selected_year,
                  line_title = line_chart_title hovered_team\<rparr>)"

section \<open>The sunburst builder \<^verbatim>\<open>update_sunburst\<close>\<close>

record sunburst =
  medal_counts :: "((string \<times> string) \<times> nat) list"
  sunburst_title :: string

text \<open>Lines 290-294.\<close>

definition sunburst_filter :: "table \<Rightarrow> string option \<Rightarrow> int \<Rightarrow> string option \<Rightarrow> table" where
  "sunburst_filter df hovered_team selected_year selected_sport =
     restrict_to sport selected_sport
       (restrict_to team hovered_team
          (filter (\<lambda>r. year r = selected_year \<and> season r = ''Summer'') df))"

text \<open>
  The key cells of \<^verbatim>\<open>groupby(['sex', 'medal'])\<close>: a row whose medal cell is missing has
  no key and is dropped (\<^verbatim>\<open>dropna=True\<close>, the default).
\<close>

fun sex_medal_keys :: "table \<Rightarrow> (string \<times> string) list" where
  "sex_medal_keys [] = []"
| "sex_medal_keys (r # rows) =
     (case medal r of
        None \<Rightarrow> sex_medal_keys rows
      | Some m \<Rightarrow> (sex r, m) # sex_medal_keys rows)"

text \<open>
  The figure is the frame handed to \<^verbatim>\<open>px.sunburst\<close> (path sex, medal; values count) and
  the title that \<^verbatim>\<open>update_layout\<close> sets last. What plotly draws from the frame is not
  modelled.
\<close>

definition sunburst_chart_title :: "string option \<Rightarrow> string" where
  "sunburst_chart_title hovered_team =
     ''Medal Counts by Gender '' @
       (case hovered_team of
          None \<Rightarrow> ''Globally''
        | Some t \<Rightarrow> if t \<noteq> [] then ''for '' @ t else ''Globally'')"

definition update_sunburst ::
    "table \<Rightarrow> hover option \<Rightarrow> int \<Rightarrow> string option \<Rightarrow> error + sunburst" where
  "update_sunburst df hover_data selected_year selected_sport =
     (case hovered_team_sunburst hover_data of
        Inl e \<Rightarrow> Inl e
      | Inr hovered_team \<Rightarrow>
          let df_filtered = sunburst_filter df hovered_team selected_year selected_sport
          in Inr \<lparr>medal_counts = group_sizes (\<lambda>k. k) (sex_medal_keys df_filtered),
                  sunburst_title = sunburst_chart_title hovered_team\<rparr>)"

section \<open>The reactive binding\<close>

text \<open>
  The three \<^verbatim>\<open>@app.callback\<close> declarations: the choropleth is bound to the slider and the
  dropdown, the line chart and the sunburst to the hover event of the choropleth, the
  slider and the dropdown. On an event the bound builders run on the current values of
  the controls.
\<close>

record controls =
  hoverData :: "hover option"
  slider_value :: int
  dropdown_value :: "string option"

definition choropleth_map :: "table \<Rightarrow> controls \<Rightarrow> error + choropleth" where
  "choropleth_map df c = update_map df (slider_value c) (dropdown_value c)"

definition line_chart_panel :: "table \<Rightarrow> controls \<Rightarrow> error + line_chart" where
  "line_chart_panel df c = update_line_chart df (hoverData c) (slider_value c) (dropdown_value c)"

definition sunburst_chart :: "table \<Rightarrow> controls \<Rightarrow> error + sunburst" where
  "sunburst_chart df c = update_sunburst df (hoverData c) (slider_value c) (dropdown_value c)"

subsection \<open>The line chart in the words of the specification\<close>

text \<open>
  The data of the line chart in the words of the specification: the Summer rows,
  restricted to the hovered team when one is set, counted by (year, sex); one series per
  sex over the years in which the subset has a row of that sex, in ascending order.
\<close>

definition lineChartSubset :: "table \<Rightarrow> string option \<Rightarrow> table" where
  "lineChartSubset df hovered =
     filter (\<lambda>r. season r = ''Summer''
                  \<and> (case hovered of None \<Rightarrow> True | Some t \<Rightarrow> team r = t)) df"

definition seriesOf :: "table \<Rightarrow> string \<Rightarrow> (int \<times> nat) list" where
  "seriesOf rows g =
     map (\<lambda>y. (y, length (filter (\<lambda>r. year r = y \<and> sex r = g) rows)))
       (sort (remdups (map year (filter (\<lambda>r. sex r = g) rows))))"

section \<open>Filter derivation and the controls of the layout\<close>

text \<open>\<^verbatim>\<open>Series.unique()\<close>: the distinct values in order of first appearance.\<close>

fun unique :: "'a list \<Rightarrow> 'a list" where
  "unique [] = []"
| "unique (x # xs) = x # unique (filter (\<lambda>y. y \<noteq> x) xs)"

text \<open>
  The position at which a value first appears in a column (the length of the column
  when it does not appear). It states the order of \<^verbatim>\<open>unique()\<close> independently of
  \<open>unique\<close>.
\<close>

definition first_appearance :: "'a \<Rightarrow> 'a list \<Rightarrow> nat" where
  "first_appearance x xs = length (takeWhile (\<lambda>y. y \<noteq> x) xs)"

text \<open>Lines 38-44.\<close>

definition summer_data :: "table \<Rightarrow> table" where
  "summer_data df = filter (\<lambda>r. season r = ''Summer'') df"

definition valid_years :: "table \<Rightarrow> int list" where
  "valid_years df = unique (map year (summer_data df))"

definition valid_sports :: "table \<Rightarrow> string list" where
  "valid_sports df = unique (map sport (summer_data df))"

text \<open>One (label, value) pair per option.\<close>

definition sports_options :: "table \<Rightarrow> (string \<times> string) list" where
  "sports_options df = map (\<lambda>s. (s, s)) (valid_sports df)"

text \<open>
  The marks dict, in insertion order: the entry of a year maps its decimal text to
  itself, so the entry is given by the year.
\<close>

definition year_marks :: "table \<Rightarrow> int list" where
  "year_marks df = sort (valid_years df)"

text \<open>
  The dropdown and the slider of \<^verbatim>\<open>app.layout\<close> (lines 72-87). \<^verbatim>\<open>min\<close> and
  \<^verbatim>\<open>max\<close> of an empty array raise \<^verbatim>\<open>ValueError\<close>.
\<close>

record layout =
  dropdown_options :: "(string \<times> string) list"
  slider_min :: int
  slider_max :: int
  slider_start :: int
  slider_marks :: "int list"

definition app_layout :: "table \<Rightarrow> error + layout" where
  "app_layout df =
     (case valid_years df of
        [] \<Rightarrow> Inl ValueError
      | y # ys \<Rightarrow>
          Inr \<lparr>dropdown_options = sports_options df,
               slider_min = fold min ys y,
               slider_max = fold max ys y,
               slider_start = fold min ys y,
               slider_marks = year_marks df\<rparr>)"

section \<open>Frames as objects\<close>

text \<open>
  The functions above give the value that each source function returns. Whether a call
  changes the table, or leaves anything behind that a later call reads, is a question
  about objects, so the same statements are modelled once more on a store of frames: a
  name of the program holds the address of a frame. Boolean indexing,
  \<^verbatim>\<open>groupby(...).agg(...).reset_index()\<close> and \<^verbatim>\<open>groupby(...).size().reset_index()\<close>
  build a new frame; \<^verbatim>\<open>team_stats['female_percentage'] = ...\<close> (line 60) is the one
  statement of the program that writes into an existing frame.
\<close>

datatype frame =
    Athletes table
  | TeamCounts "(string \<times> nat \<times> nat) list"
  | TeamStats "team_row list"
  | YearSexCounts "((int \<times> string) \<times> nat) list"
  | SexMedalCounts "((string \<times> string) \<times> nat) list"

record store =
  frames :: "nat \<Rightarrow> frame option"
  next_id :: nat

type_synonym 'a run = "store \<Rightarrow> (error + 'a) \<times> store"

definition done_with :: "'a \<Rightarrow> 'a run" where
  "done_with x st = (Inr x, st)"

definition raise :: "error \<Rightarrow> 'a run" where
  "raise e st = (Inl e, st)"

definition then_do :: "'a run \<Rightarrow> ('a \<Rightarrow> 'b run) \<Rightarrow> 'b run" where
  "then_do m f st = (case m st of (Inl e, st') \<Rightarrow> (Inl e, st') | (Inr x, st') \<Rightarrow> f x st')"

text \<open>An operation that reads the frame at an address and builds a new frame from it.\<close>

definition new_frame :: "(frame \<Rightarrow> error + frame) \<Rightarrow> nat \<Rightarrow> nat run" where
  "new_frame f a st =
     (case frames st a of
        None \<Rightarrow> (Inl KeyError, st)
      | Some fr \<Rightarrow>
          (case f fr of
             Inl e \<Rightarrow> (Inl e, st)
           | Inr fr' \<Rightarrow>
               (Inr (next_id st),
                st\<lparr>frames := (frames st)(next_id st \<mapsto> fr'), next_id := Suc (next_id st)\<rparr>)))"

text \<open>An operation that writes its result into the frame it reads.\<close>

definition write_frame :: "(frame \<Rightarrow> error + frame) \<Rightarrow> nat \<Rightarrow> unit run" where
  "write_frame f a st =
     (case frames st a of
        None \<Rightarrow> (Inl KeyError, st)
      | Some fr \<Rightarrow>
          (case f fr of
             Inl e \<Rightarrow> (Inl e, st)
           | Inr fr' \<Rightarrow> (Inr (), st\<lparr>frames := (frames st)(a \<mapsto> fr')\<rparr>)))"

definition read_frame :: "nat \<Rightarrow> frame run" where
  "read_frame a st = (case frames st a of None \<Rightarrow> (Inl KeyError, st) | Some fr \<Rightarrow> (Inr fr, st))"

text \<open>The frame operations of the program.\<close>

definition boolean_index :: "(athlete \<Rightarrow> bool) \<Rightarrow> frame \<Rightarrow> error + frame" where
  "boolean_index p fr = (case fr of Athletes rows \<Rightarrow> Inr (Athletes (filter p rows)) | _ \<Rightarrow> Inl TypeError)"

definition groupby_team_agg :: "frame \<Rightarrow> error + frame" where
  "groupby_team_agg fr =
     (case fr of
        Athletes rows \<Rightarrow>
          Inr (TeamCounts
            (map (\<lambda>t. let x = map sex (group_rows team rows t)
                      in (t, length x, length (filter (\<lambda>v. v = ''F'') x)))
               (group_keys team rows)))
      | _ \<Rightarrow> Inl TypeError)"

definition assign_female_percentage :: "frame \<Rightarrow> error + frame" where
  "assign_female_percentage fr =
     (case fr of
        TeamCounts cs \<Rightarrow>
          Inr (TeamStats
            (map (\<lambda>(t, total, female).
                    \<lparr>stats_team = t, total_athletes = total, female_athletes = female,
                     female_percentage = fmul (fdiv female total) 100\<rparr>) cs))
      | _ \<Rightarrow> Inl TypeError)"

definition groupby_year_sex_size :: "frame \<Rightarrow> error + frame" where
  "groupby_year_sex_size fr =
     (case fr of
        Athletes rows \<Rightarrow> Inr (YearSexCounts (group_sizes (\<lambda>r. (year r, sex r)) rows))
      | _ \<Rightarrow> Inl TypeError)"

definition index_gender :: "string \<Rightarrow> frame \<Rightarrow> error + frame" where
  "index_gender g fr =
     (case fr of
        YearSexCounts cs \<Rightarrow> Inr (YearSexCounts (filter (\<lambda>((y, s), n). s = g) cs))
      | _ \<Rightarrow> Inl TypeError)"

definition groupby_sex_medal_size :: "frame \<Rightarrow> error + frame" where
  "groupby_sex_medal_size fr =
     (case fr of
        Athletes rows \<Rightarrow> Inr (SexMedalCounts (group_sizes (\<lambda>k. k) (sex_medal_keys rows)))
      | _ \<Rightarrow> Inl TypeError)"

text \<open>\<^verbatim>\<open>if v: frame = frame[frame[col] == v]\<close>: the name keeps its frame when the test fails.\<close>

definition restrict_frame :: "(athlete \<Rightarrow> string) \<Rightarrow> string option \<Rightarrow> nat \<Rightarrow> nat run" where
  "restrict_frame col v a =
     (case v of
        None \<Rightarrow> done_with a
      | Some s \<Rightarrow> if s \<noteq> [] then new_frame (boolean_index (\<lambda>r. col r = s)) a else done_with a)"

text \<open>\<^verbatim>\<open>calculate_team_stats\<close>, statement by statement; \<open>df\<close> is the address of the table.\<close>

definition calculate_team_stats_obj :: "nat \<Rightarrow> int \<Rightarrow> string option \<Rightarrow> nat run" where
  "calculate_team_stats_obj df y sp =
     then_do (new_frame (boolean_index (\<lambda>r. year r = y \<and> season r = ''Summer'')) df) (\<lambda>a1.
     then_do (restrict_frame sport sp a1) (\<lambda>df_filtered.
     then_do (new_frame groupby_team_agg df_filtered) (\<lambda>team_stats.
     then_do (write_frame assign_female_percentage team_stats) (\<lambda>_.
     done_with team_stats))))"

text \<open>The three builders: the frame statements on the store, then the figure.\<close>

definition update_map_obj :: "nat \<Rightarrow> int \<Rightarrow> string option \<Rightarrow> choropleth run" where
  "update_map_obj df selected_year selected_sport =
     then_do (calculate_team_stats_obj df selected_year selected_sport) (\<lambda>a.
     then_do (read_frame a) (\<lambda>fr.
       case fr of
         TeamStats team_stats_df \<Rightarrow>
           (case choropleth_figure team_stats_df selected_year selected_sport of
              Inl e \<Rightarrow> raise e
            | Inr fig \<Rightarrow> done_with fig)
       | _ \<Rightarrow> raise TypeError))"

fun add_traces :: "nat \<Rightarrow> (string \<times> string) list \<Rightarrow> trace list run" where
  "add_traces athlete_counts [] = done_with []"
| "add_traces athlete_counts (gc # rest) =
     then_do (new_frame (index_gender (fst gc)) athlete_counts) (\<lambda>a.
     then_do (read_frame a) (\<lambda>fr.
       case fr of
         YearSexCounts gender_data \<Rightarrow>
           then_do (add_traces athlete_counts rest) (\<lambda>ts.
           done_with (scatter gender_data gc # ts))
       | _ \<Rightarrow> raise TypeError))"

definition update_line_chart_obj ::
    "nat \<Rightarrow> hover option \<Rightarrow> int \<Rightarrow> string option \<Rightarrow> line_chart run" where
  "update_line_chart_obj df hover_data selected_year selected_sport =
     (case hovered_team_line hover_data of
        Inl e \<Rightarrow> raise e
      | Inr hovered_team \<Rightarrow>
          then_do (new_frame (boolean_index (\<lambda>r. season r = ''Summer'')) df) (\<lambda>a1.
          then_do (restrict_frame team hovered_team a1) (\<lambda>a2.
          then_do (restrict_frame sport selected_sport a2) (\<lambda>df_filtered.
          then_do (new_frame groupby_year_sex_size df_filtered) (\<lambda>athlete_counts.
          then_do (add_traces athlete_counts (zip [''F'', ''M''] [''darkblue'', ''darkred''])) (\<lambda>ts.
          done_with \<lparr>traces = ts, vline = selected_year,
                     line_title = line_chart_title hovered_team\<rparr>))))))"

definition update_sunburst_obj ::
    "nat \<Rightarrow> hover option \<Rightarrow> int \<Rightarrow> string option \<Rightarrow> sunburst run" where
  "update_sunburst_obj df hover_data selected_year selected_sport =
     (case hovered_team_sunburst hover_data of
        Inl e \<Rightarrow> raise e
      | Inr hovered_team \<Rightarrow>
          then_do (new_frame
                     (boolean_index (\<lambda>r. year r = selected_year \<and> season r = ''Summer'')) df) (\<lambda>a1.
          then_do (restrict_frame team hovered_team a1) (\<lambda>a2.
          then_do (restrict_frame sport selected_sport a2) (\<lambda>df_filtered.
          then_do (new_frame groupby_sex_medal_size df_filtered) (\<lambda>a.
          then_do (read_frame a) (\<lambda>fr.
            case fr of
              SexMedalCounts medal_counts_frame \<Rightarrow>
                done_with \<lparr>medal_counts = medal_counts_frame,
                           sunburst_title = sunburst_chart_title hovered_team\<rparr>
            | _ \<Rightarrow> raise TypeError))))))"

text \<open>
  What a run leaves of the store it started from: every frame that existed is
  unchanged, and new frames are only added above.
\<close>

definition extends :: "store \<Rightarrow> store \<Rightarrow> bool" where
  "extends st st' \<longleftrightarrow>
     next_id st \<le> next_id st' \<and> (\<forall>a. a < next_id st \<longrightarrow> frames st' a = frames st a)"

text \<open>The store when the callbacks start: the table that line 35 loads, and nothing else.\<close>

definition table_store :: "table \<Rightarrow> store" where
  "table_store tbl = \<lparr>frames = (\<lambda>a. if a = 0 then Some (Athletes tbl) else None), next_id = 1\<rparr>"

text \<open>Rows of a table, used where a statement is evaluated on a concrete input.\<close>

definition judoka :: athlete where
  "judoka = \<lparr>year = 2012, season = ''Summer'', sport = ''Judo'', team = ''France'',
             sex = ''F'', medal = Some ''Bronze''\<rparr>"

definition rower :: athlete where
  "rower = \<lparr>year = 2012, season = ''Summer'', sport = ''Rowing'', team = ''Chile'',
            sex = ''M'', medal = None\<rparr>"

definition fencer :: athlete where
  "fencer = \<lparr>year = 2012, season = ''Summer'', sport = ''Fencing'', team = ''Italy'',
             sex = ''F'', medal = Some ''Bronze''\<rparr>"

definition sprinter :: athlete where
  "sprinter = \<lparr>year = 2008, season = ''Summer'', sport = ''Athletics'', team = ''Jamaica'',
               sex = ''M'', medal = Some ''Gold''\<rparr>"

definition skier :: athlete where
  "skier = \<lparr>year = 2010, season = ''Winter'', sport = ''Alpine Skiing'', team = ''Austria'',
            sex = ''F'', medal = Some ''Silver''\<rparr>"

section \<open>Grouping\<close>

lemma group_keys_set [simp]: "set (group_keys key rows) = key ` set rows"
  by (simp add: group_keys_def)

lemma group_keys_distinct [simp]: "distinct (group_keys key rows)"
  by (simp add: group_keys_def)

lemma group_keys_sorted [simp]: "sorted (group_keys key rows)"
  by (simp add: group_keys_def)

lemma length_filter_disjoint:
  assumes "\<And>x. x \<in> set xs \<Longrightarrow> \<not> (P x \<and> Q x)"
  shows "length (filter P xs) + length (filter Q xs) = length (filter (\<lambda>x. P x \<or> Q x) xs)"
  using assms by (induction xs) auto

lemma group_sizes_sum:
  assumes "distinct ks"
  shows "(\<Sum>k\<leftarrow>ks. length (group_rows key rows k)) = length (filter (\<lambda>r. key r \<in> set ks) rows)"
  using assms
proof (induction ks)
  case Nil
  then show ?case by simp
next
  case (Cons k ks)
  then have "length (group_rows key rows k) + length (filter (\<lambda>r. key r \<in> set ks) rows)
      = length (filter (\<lambda>r. key r = k \<or> key r \<in> set ks) rows)"
    unfolding group_rows_def by (intro length_filter_disjoint) auto
  with Cons show ?case by simp
qed

text \<open>Grouping loses no row and counts none twice.\<close>

lemma group_sizes_total:
  "(\<Sum>k\<leftarrow>group_keys key rows. length (group_rows key rows k)) = length rows"
proof -
  have "filter (\<lambda>r. key r \<in> set (group_keys key rows)) rows = rows"
    by (simp add: filter_id_conv)
  with group_sizes_sum [of "group_keys key rows" key rows] show ?thesis by simp
qed

lemma sorted_map_fst:
  fixes ks :: "('a::linorder \<times> 'b::linorder) list"
  assumes "sorted ks"
  shows "sorted (map fst ks)"
proof -
  have "sorted_wrt (\<lambda>p q. fst p \<le> fst q) ks"
    using assms by (rule sorted_wrt_mono_rel [rotated]) (auto simp: less_eq_prod_def)
  then show ?thesis by (simp add: sorted_map)
qed

lemma gender_years:
  "map fst (filter (\<lambda>(y, s). s = g) (group_keys (\<lambda>r. (year r, sex r)) rows))
     = sort (remdups (map year (filter (\<lambda>r. sex r = g) rows)))"
    (is "?l = ?r")
proof (rule sorted_distinct_set_unique)
  let ?ks = "group_keys (\<lambda>r. (year r, sex r)) rows"
  have "sorted (filter (\<lambda>(y, s). s = g) ?ks)" by (simp add: sorted_wrt_filter)
  then show "sorted ?l" by (rule sorted_map_fst)
  have "inj_on fst (set (filter (\<lambda>(y, s). s = g) ?ks))" by (auto simp: inj_on_def)
  then show "distinct ?l" by (simp add: distinct_map)
  show "sorted ?r" by simp
  show "distinct ?r" by simp
  show "set ?l = set ?r" by (auto simp: image_iff)
qed

lemma gender_rows:
  "filter (\<lambda>((y, s), n). s = g) (group_sizes (\<lambda>r. (year r, sex r)) rows)
     = map (\<lambda>y. ((y, g), length (filter (\<lambda>r. year r = y \<and> sex r = g) rows)))
         (sort (remdups (map year (filter (\<lambda>r. sex r = g) rows))))"
proof -
  let ?ks = "group_keys (\<lambda>r. (year r, sex r)) rows"
  have "filter (\<lambda>((y, s), n). s = g) (group_sizes (\<lambda>r. (year r, sex r)) rows)
      = map (\<lambda>k. (k, length (group_rows (\<lambda>r. (year r, sex r)) rows k))) (filter (\<lambda>(y, s). s = g) ?ks)"
    by (simp add: group_sizes_def filter_map comp_def case_prod_unfold)
  also have "\<dots> = map (\<lambda>y. ((y, g), length (filter (\<lambda>r. year r = y \<and> sex r = g) rows)))
      (map fst (filter (\<lambda>(y, s). s = g) ?ks))"
    by (auto simp: group_rows_def)
  finally show ?thesis by (simp only: gender_years)
qed


lemma restrict_to_filter:
  "restrict_to col v (filter P rows) = filter P (restrict_to col v rows)"
  by (auto simp: restrict_to_def split: option.splits intro: filter_cong)

lemma restrict_to_Some:
  "t \<noteq> [] \<Longrightarrow> restrict_to col (Some t) rows = filter (\<lambda>r. col r = t) rows"
  by (simp add: restrict_to_def)

lemma restrict_to_None [simp]: "restrict_to col None rows = rows"
  by (simp add: restrict_to_def)

lemma line_filter_hover:
  assumes "t \<noteq> []"
  shows "line_filter df (Some t) sp = line_filter (filter (\<lambda>r. team r = t) df) None sp"
  using assms by (simp add: line_filter_def restrict_to_Some conj_commute)

lemma sunburst_filter_hover:
  assumes "t \<noteq> []"
  shows "sunburst_filter df (Some t) y sp = sunburst_filter (filter (\<lambda>r. team r = t) df) None y sp"
  using assms by (simp add: sunburst_filter_def restrict_to_Some conj_commute)

lemma sunburst_filter_filter:
  "sunburst_filter (filter P df) ht y sp = filter P (sunburst_filter df ht y sp)"
  by (simp add: sunburst_filter_def restrict_to_filter conj_commute)

lemma sex_medal_keys_medal_rows:
  "sex_medal_keys (filter (\<lambda>r. medal r \<noteq> None) rows) = sex_medal_keys rows"
  by (induction rows) (auto split: option.splits)

lemma sex_medal_keys_length:
  "length (sex_medal_keys rows) = length (filter (\<lambda>r. medal r \<noteq> None) rows)"
  by (induction rows) (auto split: option.splits)

lemma sex_medal_keys_count:
  "length (filter (\<lambda>k. k = (s, m)) (sex_medal_keys rows))
     = length (filter (\<lambda>r. sex r = s \<and> medal r = Some m) rows)"
  by (induction rows) (auto split: option.splits)

lemma group_sizes_sum_counts: "(\<Sum>(k, n)\<leftarrow>group_sizes key rows. n) = length rows"
  using group_sizes_total [of key rows] by (simp add: group_sizes_def comp_def)

lemma group_sizes_entry:
  assumes "(k, n) \<in> set (group_sizes key rows)"
  shows "n = length (filter (\<lambda>r. key r = k) rows) \<and> k \<in> key ` set rows"
  using assms by (auto simp: group_sizes_def group_rows_def)

text \<open>Every selection without a matching row makes the choropleth builder raise.\<close>

lemma update_map_no_rows:
  assumes "team_stats_filter df y sp = []"
  shows "update_map df y sp = Inl ValueError"
  using assms by (simp add: update_map_def choropleth_figure_def calculate_team_stats_def group_keys_def idxmax_def)

section \<open>Properties of the aggregator\<close>

lemma team_agg_team [simp]: "stats_team (team_agg rows t) = t"
  by (simp add: team_agg_def Let_def)

lemma team_agg_total:
  "total_athletes (team_agg rows t) = length (filter (\<lambda>r. team r = t) rows)"
  by (simp add: team_agg_def Let_def group_rows_def)

lemma team_agg_female:
  "female_athletes (team_agg rows t) = length (filter (\<lambda>r. team r = t \<and> sex r = ''F'') rows)"
  by (simp add: team_agg_def Let_def group_rows_def filter_map comp_def conj_commute)

lemma team_agg_total_pos:
  assumes "t \<in> team ` set rows"
  shows "0 < total_athletes (team_agg rows t)"
proof -
  from assms obtain r where "r \<in> set rows" "team r = t" by auto
  then have "r \<in> set (group_rows team rows t)" by (simp add: group_rows_def)
  then have "group_rows team rows t \<noteq> []" by auto
  then show ?thesis by (simp add: team_agg_def Let_def)
qed

lemma team_agg_female_le: "female_athletes (team_agg rows t) \<le> total_athletes (team_agg rows t)"
  by (simp add: team_agg_def Let_def)

lemma team_agg_percentage:
  assumes "t \<in> team ` set rows"
  shows "female_percentage (team_agg rows t) =
           Num (real (female_athletes (team_agg rows t)) / real (total_athletes (team_agg rows t)) * 100)"
proof -
  from assms have "0 < total_athletes (team_agg rows t)" by (rule team_agg_total_pos)
  then have "length (group_rows team rows t) \<noteq> 0" by (simp add: team_agg_def Let_def)
  then show ?thesis by (simp add: team_agg_def Let_def fdiv_def)
qed

lemma calculate_team_stats_set:
  "set (calculate_team_stats df y sp) =
     team_agg (team_stats_filter df y sp) ` team ` set (team_stats_filter df y sp)"
  by (simp add: calculate_team_stats_def Let_def)

lemma calculate_team_stats_teams:
  "map stats_team (calculate_team_stats df y sp) = group_keys team (team_stats_filter df y sp)"
  by (simp add: calculate_team_stats_def Let_def comp_def)

lemma restrict_to_chosen:
  "restrict_to col v rows = filter (\<lambda>r. case chosen v of None \<Rightarrow> True | Some s \<Rightarrow> col r = s) rows"
  by (auto simp: restrict_to_def chosen_def truthy_def split: option.splits)

lemma team_stats_filter_chosen:
  "team_stats_filter df y sp =
     filter (\<lambda>r. season r = ''Summer'' \<and> year r = y
                  \<and> (case chosen sp of None \<Rightarrow> True | Some s \<Rightarrow> sport r = s)) df"
  by (auto simp: team_stats_filter_def restrict_to_chosen intro: filter_cong)

text \<open>
  C1. For every year and optional sport the aggregator returns exactly the rows of the
  specification's \<open>computeTeamStats\<close>, one row per team: the Summer rows of the year,
  restricted to the sport when a sport is given, grouped by team, with the number of
  rows, the number of rows of sex F and female / total * 100 of each team. A sport is
  given when the argument passes the truth test of line 50: for \<^verbatim>\<open>None\<close> and for the
  empty string, which no option of the dropdown carries, no sport filter is applied.
\<close>

theorem calculate_team_stats_refines:
  "set (calculate_team_stats df y sp) = computeTeamStats df y (chosen sp)
     \<and> distinct (map stats_team (calculate_team_stats df y sp))"
proof -
  define rows where "rows = team_stats_filter df y sp"
  have agg: "team_agg rows t =
      (let total = length (filter (\<lambda>r. team r = t) rows);
           female = length (filter (\<lambda>r. team r = t \<and> sex r = ''F'') rows)
       in \<lparr>stats_team = t, total_athletes = total, female_athletes = female,
           female_percentage = Num (real female / real total * 100)\<rparr>)"
    if "t \<in> team ` set rows" for t
    using team_agg_percentage [OF that]
    by (simp add: Let_def team_agg_total team_agg_female team_row.equality)
  have "set (calculate_team_stats df y sp) = team_agg rows ` team ` set rows"
    by (simp add: calculate_team_stats_set rows_def)
  also have "\<dots> = computeTeamStats df y (chosen sp)"
    unfolding computeTeamStats_def Let_def team_stats_filter_chosen [symmetric]
      rows_def [symmetric]
    using agg by (auto simp: Let_def image_iff)
  finally have 1: "set (calculate_team_stats df y sp) = computeTeamStats df y (chosen sp)" .
  have 2: "distinct (map stats_team (calculate_team_stats df y sp))"
    by (simp add: calculate_team_stats_teams)
  from 1 2 show ?thesis by simp
qed

theorem calculate_team_stats_refines_witness:
  "chosen (Some ''Judo'') = Some ''Judo''
   \<and> set (calculate_team_stats [judoka, rower, judoka] 2012 (Some ''Judo''))
       = computeTeamStats [judoka, rower, judoka] 2012 (Some ''Judo'')
   \<and> calculate_team_stats [judoka, rower, judoka] 2012 (Some ''Judo'')
       = [\<lparr>stats_team = ''France'', total_athletes = 2, female_athletes = 2,
           female_percentage = Num 100\<rparr>]"
proof -
  have c: "chosen (Some ''Judo'') = Some ''Judo''" by (simp add: chosen_def truthy_def)
  from calculate_team_stats_refines [of "[judoka, rower, judoka]" 2012 "Some ''Judo''"]
  have "set (calculate_team_stats [judoka, rower, judoka] 2012 (Some ''Judo''))
       = computeTeamStats [judoka, rower, judoka] 2012 (Some ''Judo'')"
    unfolding c by (rule conjunct1)
  moreover have "calculate_team_stats [judoka, rower, judoka] 2012 (Some ''Judo'')
       = [\<lparr>stats_team = ''France'', total_athletes = 2, female_athletes = 2,
           female_percentage = Num 100\<rparr>]"
    by (simp add: calculate_team_stats_def team_stats_filter_def restrict_to_def judoka_def
        rower_def group_keys_def team_agg_def group_rows_def fdiv_def Let_def)
  ultimately show ?thesis using c by simp
qed

text \<open>
  C3. The female counts and the non-female counts of all teams of the aggregate add up
  to the number of Summer rows of the table that match the year and, when a sport is
  selected (line 50), the sport.
\<close>

theorem team_stats_counts_sum:
  "(\<Sum>row\<leftarrow>calculate_team_stats df y sp. female_athletes row)
     + (\<Sum>row\<leftarrow>calculate_team_stats df y sp. total_athletes row - female_athletes row)
   = length (filter (\<lambda>r. season r = ''Summer'' \<and> year r = y
                          \<and> (case chosen sp of None \<Rightarrow> True | Some s \<Rightarrow> sport r = s)) df)"
proof -
  define rows where "rows = team_stats_filter df y sp"
  define ts where "ts = calculate_team_stats df y sp"
  have split: "female_athletes row + (total_athletes row - female_athletes row) = total_athletes row"
    if "row \<in> set ts" for row
    using that team_agg_female_le unfolding ts_def calculate_team_stats_set by auto
  have "(\<Sum>row\<leftarrow>ts. female_athletes row) + (\<Sum>row\<leftarrow>ts. total_athletes row - female_athletes row)
      = (\<Sum>row\<leftarrow>ts. female_athletes row + (total_athletes row - female_athletes row))"
    by (simp add: sum_list_addf)
  also have "\<dots> = (\<Sum>row\<leftarrow>ts. total_athletes row)"
    using split by (intro arg_cong [where f = sum_list] map_cong) auto
  also have "\<dots> = (\<Sum>t\<leftarrow>group_keys team rows. length (group_rows team rows t))"
    by (simp add: ts_def rows_def calculate_team_stats_def Let_def comp_def team_agg_total
        group_rows_def)
  also have "\<dots> = length rows" by (rule group_sizes_total)
  finally show ?thesis unfolding ts_def rows_def team_stats_filter_chosen .
qed

text \<open>
  C4. The percentage of every row of the aggregate is a number between 0 and 100, or it
  is NaN in a row whose total is 0.
\<close>

theorem female_percentage_range:
  "\<forall>row \<in> set (calculate_team_stats df y sp).
     (\<exists>p. female_percentage row = Num p \<and> 0 \<le> p \<and> p \<le> 100)
     \<or> (female_percentage row = NaN \<and> total_athletes row = 0)"
proof
  fix row assume "row \<in> set (calculate_team_stats df y sp)"
  then obtain t where t: "t \<in> team ` set (team_stats_filter df y sp)"
    and row: "row = team_agg (team_stats_filter df y sp) t"
    unfolding calculate_team_stats_set by auto
  let ?f = "female_athletes row" and ?n = "total_athletes row"
  have pos: "0 < ?n" and le: "?f \<le> ?n"
    using t by (simp_all add: row team_agg_total_pos team_agg_female_le)
  have pct: "female_percentage row = Num (real ?f / real ?n * 100)"
    using t by (simp add: row team_agg_percentage)
  have "0 \<le> real ?f / real ?n * 100" by simp
  moreover have "real ?f / real ?n \<le> 1" using pos le by (simp add: divide_le_eq)
  then have "real ?f / real ?n * 100 \<le> 1 * 100" by (intro mult_right_mono) simp_all
  then have "real ?f / real ?n * 100 \<le> 100" by linarith
  ultimately show "(\<exists>p. female_percentage row = Num p \<and> 0 \<le> p \<and> p \<le> 100)
     \<or> (female_percentage row = NaN \<and> total_athletes row = 0)"
    using pct by simp
qed

theorem female_percentage_range_witness:
  "\<lparr>stats_team = ''Chile'', total_athletes = 1, female_athletes = 0, female_percentage = Num 0\<rparr>
     \<in> set (calculate_team_stats [judoka, rower] 2012 None)
   \<and> ((\<exists>p. female_percentage \<lparr>stats_team = ''Chile'', total_athletes = 1, female_athletes = 0,
              female_percentage = Num 0\<rparr> = Num p \<and> 0 \<le> p \<and> p \<le> 100)
      \<or> (female_percentage \<lparr>stats_team = ''Chile'', total_athletes = 1, female_athletes = 0,
              female_percentage = Num 0\<rparr> = NaN
         \<and> total_athletes \<lparr>stats_team = ''Chile'', total_athletes = 1, female_athletes = 0,
              female_percentage = Num 0\<rparr> = 0))"
    (is "?row \<in> _ \<and> ?range")
proof -
  have mem: "?row \<in> set (calculate_team_stats [judoka, rower] 2012 None)"
    by (simp add: calculate_team_stats_def team_stats_filter_def restrict_to_def judoka_def
        rower_def group_keys_def team_agg_def group_rows_def fdiv_def Let_def)
  from female_percentage_range [of "[judoka, rower]" 2012 None] mem have ?range
    by (rule bspec)
  with mem show ?thesis by (rule conjI)
qed

text \<open>
  C9. Every row of the aggregate has a total of at least 1 and no more females than the
  total, so the division of line 60 is by a positive number: the percentage is the
  finite quotient, never NaN or inf.
\<close>

theorem team_stats_total_positive:
  "\<forall>row \<in> set (calculate_team_stats df y sp).
     1 \<le> total_athletes row \<and> female_athletes row \<le> total_athletes row
     \<and> female_percentage row
         = Num (real (female_athletes row) / real (total_athletes row) * 100)"
proof
  fix row assume "row \<in> set (calculate_team_stats df y sp)"
  then obtain t where t: "t \<in> team ` set (team_stats_filter df y sp)"
    and row: "row = team_agg (team_stats_filter df y sp) t"
    unfolding calculate_team_stats_set by auto
  from t have "0 < total_athletes row" unfolding row by (rule team_agg_total_pos)
  then have "1 \<le> total_athletes row" by simp
  moreover have "female_athletes row \<le> total_athletes row"
    unfolding row by (rule team_agg_female_le)
  moreover from t have "female_percentage row
      = Num (real (female_athletes row) / real (total_athletes row) * 100)"
    unfolding row by (rule team_agg_percentage)
  ultimately show "1 \<le> total_athletes row \<and> female_athletes row \<le> total_athletes row
     \<and> female_percentage row
         = Num (real (female_athletes row) / real (total_athletes row) * 100)"
    by simp
qed

theorem team_stats_total_positive_witness:
  "\<lparr>stats_team = ''France'', total_athletes = 1, female_athletes = 1, female_percentage = Num 100\<rparr>
     \<in> set (calculate_team_stats [judoka, rower] 2012 None)
   \<and> (1 \<le> total_athletes \<lparr>stats_team = ''France'', total_athletes = 1, female_athletes = 1,
              female_percentage = Num 100\<rparr>
      \<and> female_athletes \<lparr>stats_team = ''France'', total_athletes = 1, female_athletes = 1,
              female_percentage = Num 100\<rparr>
          \<le> total_athletes \<lparr>stats_team = ''France'', total_athletes = 1, female_athletes = 1,
              female_percentage = Num 100\<rparr>
      \<and> female_percentage \<lparr>stats_team = ''France'', total_athletes = 1, female_athletes = 1,
              female_percentage = Num 100\<rparr>
          = Num (real (female_athletes \<lparr>stats_team = ''France'', total_athletes = 1,
              female_athletes = 1, female_percentage = Num 100\<rparr>)
            / real (total_athletes \<lparr>stats_team = ''France'', total_athletes = 1,
              female_athletes = 1, female_percentage = Num 100\<rparr>) * 100))"
    (is "?row \<in> _ \<and> ?bounds")
proof -
  have mem: "?row \<in> set (calculate_team_stats [judoka, rower] 2012 None)"
    by (simp add: calculate_team_stats_def team_stats_filter_def restrict_to_def judoka_def
        rower_def group_keys_def team_agg_def group_rows_def fdiv_def Let_def)
  from team_stats_total_positive [of "[judoka, rower]" 2012 None] mem have ?bounds
    by (rule bspec)
  with mem show ?thesis by (rule conjI)
qed

section \<open>The chart builders\<close>

lemma line_filter_chosen:
  "line_filter df ht sp
    = filter (\<lambda>r. case chosen sp of None \<Rightarrow> True | Some s \<Rightarrow> sport r = s)
        (lineChartSubset df (chosen ht))"
  by (simp add: line_filter_def lineChartSubset_def restrict_to_chosen)

lemma gender_trace_series:
  "trace_x (gender_trace (group_sizes (\<lambda>r. (year r, sex r)) rows) (g, c)) = map fst (seriesOf rows g)"
  "trace_y (gender_trace (group_sizes (\<lambda>r. (year r, sex r)) rows) (g, c)) = map snd (seriesOf rows g)"
  by (simp_all add: gender_trace_def scatter_def Let_def gender_rows seriesOf_def comp_def)

lemma series_years: "set (map fst (seriesOf rows g)) = year ` {r \<in> set rows. sex r = g}"
  by (auto simp: seriesOf_def comp_def)

text \<open>
  C8, as the code has it. When the hover event yields a team (or none), the line-chart
  builder returns a chart of exactly two series, Female then Male, and a vertical marker
  at the selected year. The rows behind the series are the Summer rows, restricted to the
  hovered team when one is set and, which the claim leaves out, to the selected sport
  when one is selected (lines 219-220); an empty string sets neither. Each series holds
  the counts by (year, sex) of its sex, over the years in which the subset has a row of
  that sex, in ascending order; together the two series cover every year in which the
  subset has a row of sex F or M.
\<close>

theorem update_line_chart_series:
  assumes "hovered_team_line hover_data = Inr ht"
  shows "\<exists>c female male.
      update_line_chart df hover_data y sp = Inr c
    \<and> traces c = [female, male] \<and> vline c = y
    \<and> trace_name female = ''Female'' \<and> trace_name male = ''Male''
    \<and> trace_x female = map fst (seriesOf
         (filter (\<lambda>r. case chosen sp of None \<Rightarrow> True | Some s \<Rightarrow> sport r = s)
            (lineChartSubset df (chosen ht))) ''F'')
    \<and> trace_y female = map snd (seriesOf
         (filter (\<lambda>r. case chosen sp of None \<Rightarrow> True | Some s \<Rightarrow> sport r = s)
            (lineChartSubset df (chosen ht))) ''F'')
    \<and> trace_x male = map fst (seriesOf
         (filter (\<lambda>r. case chosen sp of None \<Rightarrow> True | Some s \<Rightarrow> sport r = s)
            (lineChartSubset df (chosen ht))) ''M'')
    \<and> trace_y male = map snd (seriesOf
         (filter (\<lambda>r. case chosen sp of None \<Rightarrow> True | Some s \<Rightarrow> sport r = s)
            (lineChartSubset df (chosen ht))) ''M'')
    \<and> set (trace_x female) \<union> set (trace_x male)
        = year ` {r \<in> set (filter (\<lambda>r. case chosen sp of None \<Rightarrow> True | Some s \<Rightarrow> sport r = s)
                               (lineChartSubset df (chosen ht))). sex r = ''F'' \<or> sex r = ''M''}"
proof -
  define sel where
    "sel = filter (\<lambda>r. case chosen sp of None \<Rightarrow> True | Some s \<Rightarrow> sport r = s)
             (lineChartSubset df (chosen ht))"
  define counts where "counts = group_sizes (\<lambda>r. (year r, sex r)) sel"
  define female where "female = gender_trace counts (''F'', ''darkblue'')"
  define male where "male = gender_trace counts (''M'', ''darkred'')"
  have filt: "line_filter df ht sp = sel"
    unfolding sel_def by (rule line_filter_chosen)
  obtain c where c: "update_line_chart df hover_data y sp = Inr c"
    and tr: "traces c = [female, male]" and vl: "vline c = y"
    by (simp add: update_line_chart_def assms Let_def filt counts_def female_def male_def)
  have names: "trace_name female = ''Female''" "trace_name male = ''Male''"
    by (simp_all add: female_def male_def gender_trace_def scatter_def Let_def)
  have xs: "trace_x female = map fst (seriesOf sel ''F'')"
      "trace_y female = map snd (seriesOf sel ''F'')"
      "trace_x male = map fst (seriesOf sel ''M'')"
      "trace_y male = map snd (seriesOf sel ''M'')"
    unfolding female_def male_def counts_def by (rule gender_trace_series)+
  have cover: "set (trace_x female) \<union> set (trace_x male)
      = year ` {r \<in> set sel. sex r = ''F'' \<or> sex r = ''M''}"
    unfolding xs series_years by auto
  from c tr vl names xs cover show ?thesis unfolding sel_def by blast
qed

theorem update_line_chart_series_witness:
  "hovered_team_line (Some (Points [Some ''France''])) = Inr (Some ''France'')
   \<and> update_line_chart [judoka, rower, fencer, sprinter] (Some (Points [Some ''France''])) 2012
        (Some ''Judo'')
       = Inr \<lparr>traces = [\<lparr>trace_name = ''Female'', trace_x = [2012], trace_y = [1],
                           trace_color = ''darkblue''\<rparr>,
                         \<lparr>trace_name = ''Male'', trace_x = [], trace_y = [],
                           trace_color = ''darkred''\<rparr>],
              vline = 2012, line_title = ''Athlete Count by Gender Over Time for France''\<rparr>
   \<and> map fst (seriesOf
         (filter (\<lambda>r. case chosen (Some ''Judo'') of None \<Rightarrow> True | Some s \<Rightarrow> sport r = s)
            (lineChartSubset [judoka, rower, fencer, sprinter] (chosen (Some ''France'')))) ''F'')
       = [2012]"
proof -
  have h: "hovered_team_line (Some (Points [Some ''France''])) = Inr (Some ''France'')"
    by (simp add: hovered_team_line_def first_location_def)
  have chart: "update_line_chart [judoka, rower, fencer, sprinter] (Some (Points [Some ''France''])) 2012
        (Some ''Judo'')
       = Inr \<lparr>traces = [\<lparr>trace_name = ''Female'', trace_x = [2012], trace_y = [1],
                           trace_color = ''darkblue''\<rparr>,
                         \<lparr>trace_name = ''Male'', trace_x = [], trace_y = [],
                           trace_color = ''darkred''\<rparr>],
              vline = 2012, line_title = ''Athlete Count by Gender Over Time for France''\<rparr>"
    by (simp add: update_line_chart_def h line_filter_def restrict_to_def group_sizes_def
        group_keys_def group_rows_def gender_trace_def scatter_def line_chart_title_def
        judoka_def rower_def fencer_def sprinter_def Let_def)
  from update_line_chart_series [OF h, of "[judoka, rower, fencer, sprinter]" 2012 "Some ''Judo''"]
  obtain c female male where
    c: "update_line_chart [judoka, rower, fencer, sprinter] (Some (Points [Some ''France''])) 2012
          (Some ''Judo'') = Inr c"
    and tr: "traces c = [female, male]"
    and fx: "trace_x female = map fst (seriesOf
         (filter (\<lambda>r. case chosen (Some ''Judo'') of None \<Rightarrow> True | Some s \<Rightarrow> sport r = s)
            (lineChartSubset [judoka, rower, fencer, sprinter] (chosen (Some ''France'')))) ''F'')"
    by blast
  from c tr chart have "trace_x female = [2012]" by auto
  with fx have "map fst (seriesOf
         (filter (\<lambda>r. case chosen (Some ''Judo'') of None \<Rightarrow> True | Some s \<Rightarrow> sport r = s)
            (lineChartSubset [judoka, rower, fencer, sprinter] (chosen (Some ''France'')))) ''F'')
       = [2012]"
    by simp
  with h chart show ?thesis by blast
qed

text \<open>
  C8 as the claim states it, with the series taken from the Summer rows of the hovered
  team, fails when a sport is selected: with Judo selected the Male series of the chart
  is empty, while the Summer rows hold one male entry in 2012 (a rower).
\<close>

theorem update_line_chart_sport_counterexample:
  "update_line_chart [judoka, rower] None 2012 (Some ''Judo'')
     = Inr \<lparr>traces = [\<lparr>trace_name = ''Female'', trace_x = [2012], trace_y = [1],
                         trace_color = ''darkblue''\<rparr>,
                       \<lparr>trace_name = ''Male'', trace_x = [], trace_y = [],
                         trace_color = ''darkred''\<rparr>],
            vline = 2012, line_title = ''Athlete Count by Gender Over Time Globally''\<rparr>
   \<and> seriesOf (lineChartSubset [judoka, rower] None) ''M'' = [(2012, 1)]"
  by (simp add: update_line_chart_def hovered_team_line_def line_filter_def restrict_to_def
      group_sizes_def group_keys_def group_rows_def gender_trace_def scatter_def line_chart_title_def seriesOf_def lineChartSubset_def
      judoka_def rower_def Let_def)

text \<open>
  C10. The sunburst aggregate counts only the rows whose medal is present. Whenever the
  hover event yields a team (or none), the builder returns a chart, and it returns the
  same chart on the table without its medal-less rows; the counts add up to the number of
  filtered rows that hold a medal, and the count of each (sex, medal) pair is the number
  of filtered rows of that sex with that medal.
\<close>

theorem update_sunburst_counts_medal_rows:
  assumes "hovered_team_sunburst hover_data = Inr ht"
  shows "\<exists>c. update_sunburst df hover_data y sp = Inr c
     \<and> update_sunburst (filter (\<lambda>r. medal r \<noteq> None) df) hover_data y sp = Inr c
     \<and> (\<Sum>(k, n)\<leftarrow>medal_counts c. n)
         = length (filter (\<lambda>r. medal r \<noteq> None) (sunburst_filter df ht y sp))
     \<and> (\<forall>((s, m), n) \<in> set (medal_counts c).
          n = length (filter (\<lambda>r. sex r = s \<and> medal r = Some m) (sunburst_filter df ht y sp)))"
proof -
  define rows where "rows = sunburst_filter df ht y sp"
  obtain c where c: "update_sunburst df hover_data y sp = Inr c"
    and mc: "medal_counts c = group_sizes (\<lambda>k. k) (sex_medal_keys rows)"
    by (simp add: update_sunburst_def assms Let_def rows_def)
  have same: "update_sunburst (filter (\<lambda>r. medal r \<noteq> None) df) hover_data y sp = Inr c"
  proof -
    have "sex_medal_keys (sunburst_filter (filter (\<lambda>r. medal r \<noteq> None) df) ht y sp)
        = sex_medal_keys (sunburst_filter df ht y sp)"
      by (simp only: sunburst_filter_filter sex_medal_keys_medal_rows)
    with c show ?thesis by (simp add: update_sunburst_def assms Let_def)
  qed
  have total: "(\<Sum>(k, n)\<leftarrow>medal_counts c. n) = length (filter (\<lambda>r. medal r \<noteq> None) rows)"
    by (simp add: mc group_sizes_sum_counts sex_medal_keys_length)
  have each: "n = length (filter (\<lambda>r. sex r = s \<and> medal r = Some m) rows)"
    if "((s, m), n) \<in> set (medal_counts c)" for s m n
    using group_sizes_entry [OF that [unfolded mc]] by (simp add: sex_medal_keys_count)
  from c same total each show ?thesis unfolding rows_def by blast
qed

theorem update_sunburst_counts_medal_rows_witness:
  "hovered_team_sunburst None = Inr None
   \<and> update_sunburst [judoka, rower, fencer] None 2012 None
       = Inr \<lparr>medal_counts = [((''F'', ''Bronze''), 2)],
              sunburst_title = ''Medal Counts by Gender Globally''\<rparr>
   \<and> update_sunburst (filter (\<lambda>r. medal r \<noteq> None) [judoka, rower, fencer]) None 2012 None
       = update_sunburst [judoka, rower, fencer] None 2012 None
   \<and> length (sunburst_filter [judoka, rower, fencer] None 2012 None) = 3
   \<and> length (filter (\<lambda>r. medal r \<noteq> None) (sunburst_filter [judoka, rower, fencer] None 2012 None)) = 2"
proof -
  have h: "hovered_team_sunburst None = Inr None" by (simp add: hovered_team_sunburst_def)
  from update_sunburst_counts_medal_rows [OF h, of "[judoka, rower, fencer]" 2012 None]
  have same: "update_sunburst (filter (\<lambda>r. medal r \<noteq> None) [judoka, rower, fencer]) None 2012 None
       = update_sunburst [judoka, rower, fencer] None 2012 None"
    by auto
  have chart: "update_sunburst [judoka, rower, fencer] None 2012 None
       = Inr \<lparr>medal_counts = [((''F'', ''Bronze''), 2)],
              sunburst_title = ''Medal Counts by Gender Globally''\<rparr>"
    by (simp add: update_sunburst_def sunburst_chart_title_def h sunburst_filter_def restrict_to_def group_sizes_def
        group_keys_def group_rows_def judoka_def rower_def fencer_def Let_def)
  have n: "length (sunburst_filter [judoka, rower, fencer] None 2012 None) = 3"
     "length (filter (\<lambda>r. medal r \<noteq> None) (sunburst_filter [judoka, rower, fencer] None 2012 None)) = 2"
    by (simp_all add: sunburst_filter_def restrict_to_def judoka_def rower_def fencer_def)
  from h chart same n show ?thesis by simp
qed

text \<open>
  C5, as the code has it. For a fixed year and sport the choropleth is the same for any
  two hover values. For a hover event on a team with a non-empty name, the series of the
  line chart and the counts of the sunburst are those of the same selection without
  hover on the table restricted to the rows of that team.
\<close>

theorem hover_restricts_line_and_sunburst:
  assumes "t \<noteq> []"
  shows "choropleth_map df \<lparr>hoverData = h1, slider_value = y, dropdown_value = sp\<rparr>
       = choropleth_map df \<lparr>hoverData = h2, slider_value = y, dropdown_value = sp\<rparr>
     \<and> (\<exists>c c'. line_chart_panel df
                  \<lparr>hoverData = Some (Points (Some t # ps)), slider_value = y, dropdown_value = sp\<rparr> = Inr c
             \<and> line_chart_panel (filter (\<lambda>r. team r = t) df)
                  \<lparr>hoverData = None, slider_value = y, dropdown_value = sp\<rparr> = Inr c'
             \<and> traces c = traces c')
     \<and> (\<exists>c c'. sunburst_chart df
                  \<lparr>hoverData = Some (Points (Some t # ps)), slider_value = y, dropdown_value = sp\<rparr> = Inr c
             \<and> sunburst_chart (filter (\<lambda>r. team r = t) df)
                  \<lparr>hoverData = None, slider_value = y, dropdown_value = sp\<rparr> = Inr c'
             \<and> medal_counts c = medal_counts c')"
proof -
  have 1: "choropleth_map df \<lparr>hoverData = h1, slider_value = y, dropdown_value = sp\<rparr>
       = choropleth_map df \<lparr>hoverData = h2, slider_value = y, dropdown_value = sp\<rparr>"
    by (simp add: choropleth_map_def)
  have 2: "\<exists>c c'. line_chart_panel df
                  \<lparr>hoverData = Some (Points (Some t # ps)), slider_value = y, dropdown_value = sp\<rparr> = Inr c
             \<and> line_chart_panel (filter (\<lambda>r. team r = t) df)
                  \<lparr>hoverData = None, slider_value = y, dropdown_value = sp\<rparr> = Inr c'
             \<and> traces c = traces c'"
    by (simp add: line_chart_panel_def update_line_chart_def hovered_team_line_def
        first_location_def Let_def line_filter_hover [OF assms])
  have 3: "\<exists>c c'. sunburst_chart df
                  \<lparr>hoverData = Some (Points (Some t # ps)), slider_value = y, dropdown_value = sp\<rparr> = Inr c
             \<and> sunburst_chart (filter (\<lambda>r. team r = t) df)
                  \<lparr>hoverData = None, slider_value = y, dropdown_value = sp\<rparr> = Inr c'
             \<and> medal_counts c = medal_counts c'"
    by (simp add: sunburst_chart_def update_sunburst_def hovered_team_sunburst_def
        first_location_def Let_def sunburst_filter_hover [OF assms])
  from 1 2 3 show ?thesis by blast
qed

theorem hover_restricts_line_and_sunburst_witness:
  "''France'' \<noteq> []
   \<and> choropleth_map [judoka, rower, sprinter]
        \<lparr>hoverData = Some (Points [Some ''France'']), slider_value = 2012, dropdown_value = None\<rparr>
     = choropleth_map [judoka, rower, sprinter]
        \<lparr>hoverData = None, slider_value = 2012, dropdown_value = None\<rparr>
   \<and> line_chart_panel [judoka, rower, sprinter]
        \<lparr>hoverData = Some (Points [Some ''France'']), slider_value = 2012, dropdown_value = None\<rparr>
     = Inr \<lparr>traces = [\<lparr>trace_name = ''Female'', trace_x = [2012], trace_y = [1],
                         trace_color = ''darkblue''\<rparr>,
                       \<lparr>trace_name = ''Male'', trace_x = [], trace_y = [],
                         trace_color = ''darkred''\<rparr>],
            vline = 2012, line_title = ''Athlete Count by Gender Over Time for France''\<rparr>
   \<and> line_chart_panel [judoka, rower, sprinter]
        \<lparr>hoverData = Some (Points [Some ''Chile'']), slider_value = 2012, dropdown_value = None\<rparr>
     = Inr \<lparr>traces = [\<lparr>trace_name = ''Female'', trace_x = [], trace_y = [],
                         trace_color = ''darkblue''\<rparr>,
                       \<lparr>trace_name = ''Male'', trace_x = [2012], trace_y = [1],
                         trace_color = ''darkred''\<rparr>],
            vline = 2012, line_title = ''Athlete Count by Gender Over Time for Chile''\<rparr>
   \<and> sunburst_chart [judoka, rower, sprinter]
        \<lparr>hoverData = Some (Points [Some ''France'']), slider_value = 2012, dropdown_value = None\<rparr>
     = Inr \<lparr>medal_counts = [((''F'', ''Bronze''), 1)],
            sunburst_title = ''Medal Counts by Gender for France''\<rparr>
   \<and> sunburst_chart [judoka, rower, sprinter]
        \<lparr>hoverData = Some (Points [Some ''Chile'']), slider_value = 2012, dropdown_value = None\<rparr>
     = Inr \<lparr>medal_counts = [], sunburst_title = ''Medal Counts by Gender for Chile''\<rparr>"
proof -
  have t: "''France'' \<noteq> []" by simp
  from hover_restricts_line_and_sunburst [OF t, of "[judoka, rower, sprinter]" "Some (Points [Some ''France''])" 2012 None None]
  have "choropleth_map [judoka, rower, sprinter]
        \<lparr>hoverData = Some (Points [Some ''France'']), slider_value = 2012, dropdown_value = None\<rparr>
     = choropleth_map [judoka, rower, sprinter]
        \<lparr>hoverData = None, slider_value = 2012, dropdown_value = None\<rparr>"
    by (rule conjunct1)
  then show ?thesis
    by (simp add: line_chart_panel_def sunburst_chart_def update_line_chart_def update_sunburst_def
        hovered_team_line_def hovered_team_sunburst_def first_location_def line_filter_def
        sunburst_filter_def restrict_to_def group_sizes_def group_keys_def group_rows_def
        gender_trace_def scatter_def line_chart_title_def sunburst_chart_title_def judoka_def rower_def sprinter_def Let_def)
qed

text \<open>
  C5 as the claim states it, that the aggregated data of the line chart and of the
  sunburst change whenever the hovered team changes, fails for two teams with the same
  counts: hovering France or Italy gives the same series and the same medal counts (the
  titles alone differ).
\<close>

theorem hover_same_data_counterexample:
  "Some (Points [Some ''France'']) \<noteq> Some (Points [Some ''Italy''])
   \<and> update_line_chart [judoka, rower, fencer] (Some (Points [Some ''France''])) 2012 None
     = Inr \<lparr>traces = [\<lparr>trace_name = ''Female'', trace_x = [2012], trace_y = [1],
                         trace_color = ''darkblue''\<rparr>,
                       \<lparr>trace_name = ''Male'', trace_x = [], trace_y = [],
                         trace_color = ''darkred''\<rparr>],
            vline = 2012, line_title = ''Athlete Count by Gender Over Time for France''\<rparr>
   \<and> update_line_chart [judoka, rower, fencer] (Some (Points [Some ''Italy''])) 2012 None
     = Inr \<lparr>traces = [\<lparr>trace_name = ''Female'', trace_x = [2012], trace_y = [1],
                         trace_color = ''darkblue''\<rparr>,
                       \<lparr>trace_name = ''Male'', trace_x = [], trace_y = [],
                         trace_color = ''darkred''\<rparr>],
            vline = 2012, line_title = ''Athlete Count by Gender Over Time for Italy''\<rparr>
   \<and> update_sunburst [judoka, rower, fencer] (Some (Points [Some ''France''])) 2012 None
     = Inr \<lparr>medal_counts = [((''F'', ''Bronze''), 1)],
            sunburst_title = ''Medal Counts by Gender for France''\<rparr>
   \<and> update_sunburst [judoka, rower, fencer] (Some (Points [Some ''Italy''])) 2012 None
     = Inr \<lparr>medal_counts = [((''F'', ''Bronze''), 1)],
            sunburst_title = ''Medal Counts by Gender for Italy''\<rparr>"
  by (simp add: update_line_chart_def update_sunburst_def
        hovered_team_line_def hovered_team_sunburst_def first_location_def line_filter_def
        sunburst_filter_def restrict_to_def group_sizes_def group_keys_def group_rows_def
        gender_trace_def scatter_def line_chart_title_def sunburst_chart_title_def judoka_def rower_def fencer_def Let_def)

text \<open>
  C2. On a selection without matching rows the aggregate is empty and the choropleth
  builder raises: \<^verbatim>\<open>idxmax\<close> of line 146 has no cell to take a maximum of. The table
  has Summer rows of 2008 and 2012, so the slider offers 2010 and the dropdown offers
  Judo, which no row of 2008 has. On the same selection the sunburst builder returns an
  empty aggregate, and the line-chart builder, which does not filter by year, returns
  the Judo counts of 2012.
\<close>

theorem update_map_empty_aggregate:
  "team_stats_filter [judoka, rower, fencer, sprinter] 2008 (Some ''Judo'') = []
   \<and> calculate_team_stats [judoka, rower, fencer, sprinter] 2008 (Some ''Judo'') = []
   \<and> update_map [judoka, rower, fencer, sprinter] 2008 (Some ''Judo'') = Inl ValueError
   \<and> team_stats_filter [judoka, rower, fencer, sprinter] 2010 None = []
   \<and> update_map [judoka, rower, fencer, sprinter] 2010 None = Inl ValueError
   \<and> update_sunburst [judoka, rower, fencer, sprinter] None 2008 (Some ''Judo'')
       = Inr \<lparr>medal_counts = [], sunburst_title = ''Medal Counts by Gender Globally''\<rparr>
   \<and> update_line_chart [judoka, rower, fencer, sprinter] None 2008 (Some ''Judo'')
       = Inr \<lparr>traces = [\<lparr>trace_name = ''Female'', trace_x = [2012], trace_y = [1],
                           trace_color = ''darkblue''\<rparr>,
                         \<lparr>trace_name = ''Male'', trace_x = [], trace_y = [],
                           trace_color = ''darkred''\<rparr>],
              vline = 2008, line_title = ''Athlete Count by Gender Over Time Globally''\<rparr>"
  by (simp add: update_map_def choropleth_figure_def calculate_team_stats_def
      team_stats_filter_def update_sunburst_def sunburst_filter_def hovered_team_sunburst_def
      sunburst_chart_title_def update_line_chart_def line_filter_def hovered_team_line_def
      line_chart_title_def gender_trace_def scatter_def group_sizes_def group_rows_def
      restrict_to_def judoka_def rower_def fencer_def sprinter_def group_keys_def idxmax_def
      Let_def)

section \<open>Filter derivation\<close>

lemma unique_set [simp]: "set (unique xs) = set xs"
  by (induction xs rule: unique.induct) auto

lemma unique_distinct [simp]: "distinct (unique xs)"
  by (induction xs rule: unique.induct) auto

lemma fold_min_Min: "fold min ys (y::int) = Min (set (y # ys))"
  using Min.set_eq_fold [of y ys] by simp

lemma fold_max_Max: "fold max ys (y::int) = Max (set (y # ys))"
  using Max.set_eq_fold [of y ys] by simp

lemma first_appearance_filter:
  assumes "P a" and "P b"
  shows "first_appearance a (filter P xs) < first_appearance b (filter P xs)
           \<longleftrightarrow> first_appearance a xs < first_appearance b xs"
  using assms by (induction xs) (auto simp: first_appearance_def)

text \<open>\<open>unique\<close> lists the values in the order in which they first appear.\<close>

lemma unique_first_appearance:
  "sorted_wrt (\<lambda>a b. first_appearance a xs < first_appearance b xs) (unique xs)"
proof (induction xs rule: unique.induct)
  case 1
  show ?case by simp
next
  case (2 x xs)
  let ?ys = "filter (\<lambda>y. y \<noteq> x) xs"
  have head: "first_appearance x (x # xs) < first_appearance b (x # xs)"
    if "b \<in> set (unique ?ys)" for b
    using that by (auto simp: first_appearance_def)
  have tail: "first_appearance a (x # xs) < first_appearance b (x # xs)"
    if "a \<in> set (unique ?ys)" and "b \<in> set (unique ?ys)"
      and "first_appearance a ?ys < first_appearance b ?ys" for a b
  proof -
    from that(1,2) have ne: "a \<noteq> x" "b \<noteq> x" by auto
    with that(3) have "first_appearance a xs < first_appearance b xs"
      by (simp add: first_appearance_filter)
    with ne show ?thesis by (simp add: first_appearance_def)
  qed
  from "2.IH" have "sorted_wrt (\<lambda>a b. first_appearance a (x # xs) < first_appearance b (x # xs))
      (unique ?ys)"
    by (rule sorted_wrt_mono_rel [rotated]) (rule tail)
  with head show ?case by simp
qed

text \<open>
  C6, as the code has it. The filter derivation yields the distinct years and the
  distinct sports of the Summer rows, each in the order in which the values first
  appear in the year column and in the sport column of the Summer rows: of two values
  of the output, the one that appears first in the column comes first. The dropdown
  lists exactly these sports in that order; the slider marks are these years in
  ascending order and the slider runs from the smallest to the largest of them. With no
  Summer row, \<^verbatim>\<open>min\<close> raises.
\<close>

theorem filter_derivation:
  "set (valid_years df) = year ` {r \<in> set df. season r = ''Summer''}
   \<and> distinct (valid_years df)
   \<and> sorted_wrt
        (\<lambda>a b. first_appearance a (map year (filter (\<lambda>r. season r = ''Summer'') df))
                 < first_appearance b (map year (filter (\<lambda>r. season r = ''Summer'') df)))
        (valid_years df)
   \<and> set (valid_sports df) = sport ` {r \<in> set df. season r = ''Summer''}
   \<and> distinct (valid_sports df)
   \<and> sorted_wrt
        (\<lambda>a b. first_appearance a (map sport (filter (\<lambda>r. season r = ''Summer'') df))
                 < first_appearance b (map sport (filter (\<lambda>r. season r = ''Summer'') df)))
        (valid_sports df)
   \<and> (case app_layout df of
        Inl e \<Rightarrow> {r \<in> set df. season r = ''Summer''} = {}
      | Inr l \<Rightarrow>
          dropdown_options l = map (\<lambda>s. (s, s)) (valid_sports df)
        \<and> slider_marks l = sorted_list_of_set (year ` {r \<in> set df. season r = ''Summer''})
        \<and> slider_min l = Min (year ` {r \<in> set df. season r = ''Summer''})
        \<and> slider_max l = Max (year ` {r \<in> set df. season r = ''Summer''}))"
proof -
  let ?S = "{r \<in> set df. season r = ''Summer''}"
  have ys: "set (valid_years df) = year ` ?S" by (auto simp: valid_years_def summer_data_def)
  have ss: "set (valid_sports df) = sport ` ?S" by (auto simp: valid_sports_def summer_data_def)
  have d: "distinct (valid_years df)" "distinct (valid_sports df)"
    by (simp_all add: valid_years_def valid_sports_def)
  have oy: "sorted_wrt
        (\<lambda>a b. first_appearance a (map year (filter (\<lambda>r. season r = ''Summer'') df))
                 < first_appearance b (map year (filter (\<lambda>r. season r = ''Summer'') df)))
        (valid_years df)"
    unfolding valid_years_def summer_data_def by (rule unique_first_appearance)
  have os: "sorted_wrt
        (\<lambda>a b. first_appearance a (map sport (filter (\<lambda>r. season r = ''Summer'') df))
                 < first_appearance b (map sport (filter (\<lambda>r. season r = ''Summer'') df)))
        (valid_sports df)"
    unfolding valid_sports_def summer_data_def by (rule unique_first_appearance)
  have marks: "year_marks df = sorted_list_of_set (year ` ?S)"
    unfolding year_marks_def ys [symmetric] using d(1)
    by (simp add: sorted_list_of_set_sort_remdups distinct_remdups_id)
  have lay: "case app_layout df of
        Inl e \<Rightarrow> ?S = {}
      | Inr l \<Rightarrow>
          dropdown_options l = map (\<lambda>s. (s, s)) (valid_sports df)
        \<and> slider_marks l = sorted_list_of_set (year ` ?S)
        \<and> slider_min l = Min (year ` ?S)
        \<and> slider_max l = Max (year ` ?S)"
  proof (cases "valid_years df")
    case Nil
    with ys have "?S = {}" by simp
    with Nil show ?thesis by (simp add: app_layout_def)
  next
    case (Cons y ys')
    with ys have "year ` ?S = set (y # ys')" by simp
    with Cons marks show ?thesis
      by (simp add: app_layout_def sports_options_def fold_min_Min fold_max_Max del: set_simps)
  qed
  from ys d(1) oy ss d(2) os lay show ?thesis by (intro conjI)
qed

text \<open>
  C6 as the claim states it fails on the order: the sports, and with them the dropdown
  options, are not sorted, and neither is \<open>valid_years\<close> before the marks sort it.
\<close>

theorem filter_derivation_unsorted_counterexample:
  "valid_sports [rower, judoka, skier] = [''Rowing'', ''Judo'']
   \<and> \<not> sorted (valid_sports [rower, judoka, skier])
   \<and> app_layout [rower, judoka, skier]
       = Inr \<lparr>dropdown_options = [(''Rowing'', ''Rowing''), (''Judo'', ''Judo'')],
              slider_min = 2012, slider_max = 2012, slider_start = 2012, slider_marks = [2012]\<rparr>
   \<and> valid_years [judoka, skier, sprinter] = [2012, 2008]
   \<and> \<not> sorted (valid_years [judoka, skier, sprinter])"
  by (simp add: valid_sports_def valid_years_def summer_data_def app_layout_def sports_options_def
      year_marks_def rower_def judoka_def skier_def sprinter_def)

section \<open>Runs on the store\<close>

lemma extends_refl [simp]: "extends st st"
  by (simp add: extends_def)

lemma extends_trans: "extends st1 st2 \<Longrightarrow> extends st2 st3 \<Longrightarrow> extends st1 st3"
  by (auto simp: extends_def)

lemma extends_frame: "extends st st' \<Longrightarrow> a < next_id st \<Longrightarrow> frames st' a = frames st a"
  by (simp add: extends_def)

lemma extends_next: "extends st st' \<Longrightarrow> a < next_id st \<Longrightarrow> a < next_id st'"
  by (simp add: extends_def)

lemma then_do_value: "m st = (Inr x, st') \<Longrightarrow> then_do m f st = f x st'"
  by (simp add: then_do_def)

lemma new_frame_run:
  assumes "frames st a = Some fr" and "f fr = Inr fr'"
  obtains b st' where "new_frame f a st = (Inr b, st')" and "frames st' b = Some fr'"
    and "extends st st'" and "next_id st \<le> b" and "b < next_id st'"
proof
  let ?st' = "st\<lparr>frames := (frames st)(next_id st \<mapsto> fr'), next_id := Suc (next_id st)\<rparr>"
  show "new_frame f a st = (Inr (next_id st), ?st')" using assms by (simp add: new_frame_def)
  show "frames ?st' (next_id st) = Some fr'" by simp
  show "extends st ?st'" by (simp add: extends_def)
  show "next_id st \<le> next_id st" by simp
  show "next_id st < next_id ?st'" by simp
qed

lemma write_frame_run:
  assumes "frames st a = Some fr" and "f fr = Inr fr'"
  obtains st' where "write_frame f a st = (Inr (), st')" and "frames st' a = Some fr'"
    and "next_id st' = next_id st" and "\<And>b. b \<noteq> a \<Longrightarrow> frames st' b = frames st b"
proof
  let ?st' = "st\<lparr>frames := (frames st)(a \<mapsto> fr')\<rparr>"
  show "write_frame f a st = (Inr (), ?st')" using assms by (simp add: write_frame_def)
  show "frames ?st' a = Some fr'" by simp
  show "next_id ?st' = next_id st" by simp
  show "frames ?st' b = frames st b" if "b \<noteq> a" for b using that by simp
qed

lemma read_frame_run: "frames st a = Some fr \<Longrightarrow> read_frame a st = (Inr fr, st)"
  by (simp add: read_frame_def)

lemma restrict_frame_run:
  assumes "frames st a = Some (Athletes rows)" and "a < next_id st"
  obtains b st' where "restrict_frame col v a st = (Inr b, st')"
    and "frames st' b = Some (Athletes (restrict_to col v rows))"
    and "extends st st'" and "b < next_id st'"
proof (cases "truthy v")
  case False
  then have "restrict_frame col v a st = (Inr a, st)"
    and "restrict_to col v rows = rows"
    by (auto simp: restrict_frame_def restrict_to_def truthy_def done_with_def split: option.splits)
  with assms that [of a st] show ?thesis by simp
next
  case True
  then obtain s where v: "v = Some s" "s \<noteq> []" by (auto simp: truthy_def split: option.splits)
  have "boolean_index (\<lambda>r. col r = s) (Athletes rows) = Inr (Athletes (filter (\<lambda>r. col r = s) rows))"
    by (simp add: boolean_index_def)
  from new_frame_run [where f = "boolean_index P" for P, OF assms(1) this] obtain b st' where
    "new_frame (boolean_index (\<lambda>r. col r = s)) a st = (Inr b, st')"
    "frames st' b = Some (Athletes (filter (\<lambda>r. col r = s) rows))"
    "extends st st'" "b < next_id st'"
    by blast
  with v that [of b st'] show ?thesis by (simp add: restrict_frame_def restrict_to_def)
qed

lemma calculate_team_stats_obj_run:
  assumes "frames st df = Some (Athletes tbl)" and "df < next_id st"
  obtains a st' where "calculate_team_stats_obj df y sp st = (Inr a, st')"
    and "frames st' a = Some (TeamStats (calculate_team_stats tbl y sp))"
    and "extends st st'" and "a < next_id st'"
proof -
  let ?rows = "team_stats_filter tbl y sp"
  have "boolean_index (\<lambda>r. year r = y \<and> season r = ''Summer'') (Athletes tbl)
      = Inr (Athletes (filter (\<lambda>r. year r = y \<and> season r = ''Summer'') tbl))"
    by (simp add: boolean_index_def)
  from new_frame_run [where f = "boolean_index P" for P, OF assms(1) this] obtain a1 st1 where
    r1: "new_frame (boolean_index (\<lambda>r. year r = y \<and> season r = ''Summer'')) df st = (Inr a1, st1)"
    and f1: "frames st1 a1 = Some (Athletes (filter (\<lambda>r. year r = y \<and> season r = ''Summer'') tbl))"
    and e1: "extends st st1" and n1: "a1 < next_id st1"
    by blast
  from restrict_frame_run [OF f1 n1, of sport sp] obtain a2 st2 where
    r2: "restrict_frame sport sp a1 st1 = (Inr a2, st2)"
    and f2: "frames st2 a2 = Some (Athletes ?rows)"
    and e2: "extends st1 st2" and n2: "a2 < next_id st2"
    unfolding team_stats_filter_def by blast
  define counts where "counts = map (\<lambda>t. let x = map sex (group_rows team ?rows t)
      in (t, length x, length (filter (\<lambda>v. v = ''F'') x))) (group_keys team ?rows)"
  have "groupby_team_agg (Athletes ?rows) = Inr (TeamCounts counts)"
    by (simp add: groupby_team_agg_def counts_def)
  from new_frame_run [where f = groupby_team_agg, OF f2 this] obtain a3 st3 where
    r3: "new_frame groupby_team_agg a2 st2 = (Inr a3, st3)"
    and f3: "frames st3 a3 = Some (TeamCounts counts)"
    and e3: "extends st2 st3" and fresh: "next_id st2 \<le> a3" and n3: "a3 < next_id st3"
    by blast
  have "assign_female_percentage (TeamCounts counts) = Inr (TeamStats (calculate_team_stats tbl y sp))"
    by (simp add: assign_female_percentage_def counts_def calculate_team_stats_def team_agg_def
        Let_def comp_def)
  from write_frame_run [where f = assign_female_percentage, OF f3 this] obtain st4 where
    r4: "write_frame assign_female_percentage a3 st3 = (Inr (), st4)"
    and f4: "frames st4 a3 = Some (TeamStats (calculate_team_stats tbl y sp))"
    and n4: "next_id st4 = next_id st3"
    and same: "\<And>b. b \<noteq> a3 \<Longrightarrow> frames st4 b = frames st3 b"
    by blast
  have e03: "extends st st3" using e1 e2 e3 by (blast intro: extends_trans)
  have "next_id st \<le> a3" using e1 e2 fresh by (simp add: extends_def)
  then have e04: "extends st st4"
    using e03 same n4 by (auto simp: extends_def)
  have run: "calculate_team_stats_obj df y sp st = (Inr a3, st4)"
    by (simp add: calculate_team_stats_obj_def then_do_def r1 r2
        r3 r4 done_with_def)
  from run f4 e04 n3 n4 show ?thesis by (intro that [of a3 st4]) simp_all
qed

lemma update_map_obj_run:
  assumes "frames st df = Some (Athletes tbl)" and "df < next_id st"
  obtains st' where "update_map_obj df y sp st = (update_map tbl y sp, st')" and "extends st st'"
proof -
  from calculate_team_stats_obj_run [OF assms, of y sp] obtain a st' where
    r: "calculate_team_stats_obj df y sp st = (Inr a, st')"
    and f: "frames st' a = Some (TeamStats (calculate_team_stats tbl y sp))"
    and e: "extends st st'"
    by blast
  have "update_map_obj df y sp st = (update_map tbl y sp, st')"
    by (simp add: update_map_obj_def then_do_def r read_frame_run [OF f]
        update_map_def raise_def done_with_def split: sum.splits)
  then show ?thesis using e by (rule that)
qed

lemma add_traces_run:
  assumes "frames st c = Some (YearSexCounts ac)" and "c < next_id st"
  obtains st' where "add_traces c gcs st = (Inr (map (gender_trace ac) gcs), st')"
    and "extends st st'"
  using assms
proof (induction gcs arbitrary: st thesis)
  case Nil
  show ?case by (rule Nil(1) [of st]) (simp_all add: done_with_def)
next
  case (Cons gc gcs)
  let ?gd = "filter (\<lambda>((y, s), n). s = fst gc) ac"
  have "index_gender (fst gc) (YearSexCounts ac) = Inr (YearSexCounts ?gd)"
    by (simp add: index_gender_def)
  from new_frame_run [where f = "index_gender (fst gc)", OF Cons.prems(2) this] obtain a st1 where
    r1: "new_frame (index_gender (fst gc)) c st = (Inr a, st1)"
    and f1: "frames st1 a = Some (YearSexCounts ?gd)"
    and e1: "extends st st1"
    by blast
  from e1 Cons.prems(2,3) have c1: "frames st1 c = Some (YearSexCounts ac)" "c < next_id st1"
    by (simp_all add: extends_frame extends_next)
  from Cons.IH [OF _ c1] obtain st2 where
    r2: "add_traces c gcs st1 = (Inr (map (gender_trace ac) gcs), st2)"
    and e2: "extends st1 st2"
    by blast
  have "add_traces c (gc # gcs) st = (Inr (map (gender_trace ac) (gc # gcs)), st2)"
    by (simp add: then_do_def r1 read_frame_run [OF f1] r2 done_with_def gender_trace_def)
  moreover have "extends st st2" using e1 e2 by (rule extends_trans)
  ultimately show ?case by (rule Cons.prems(1))
qed

lemma update_line_chart_obj_run:
  assumes "frames st df = Some (Athletes tbl)" and "df < next_id st"
  obtains st' where
    "update_line_chart_obj df hover_data y sp st = (update_line_chart tbl hover_data y sp, st')"
    and "extends st st'"
proof (cases "hovered_team_line hover_data")
  case (Inl e)
  then have "update_line_chart_obj df hover_data y sp st = (update_line_chart tbl hover_data y sp, st)"
    by (simp add: update_line_chart_obj_def update_line_chart_def raise_def)
  then show ?thesis by (rule that) simp
next
  case (Inr ht)
  let ?summer = "filter (\<lambda>r. season r = ''Summer'') tbl"
  have "boolean_index (\<lambda>r. season r = ''Summer'') (Athletes tbl) = Inr (Athletes ?summer)"
    by (simp add: boolean_index_def)
  from new_frame_run [where f = "boolean_index P" for P, OF assms(1) this] obtain a1 st1 where
    r1: "new_frame (boolean_index (\<lambda>r. season r = ''Summer'')) df st = (Inr a1, st1)"
    and f1: "frames st1 a1 = Some (Athletes ?summer)"
    and e1: "extends st st1" and n1: "a1 < next_id st1"
    by blast
  from restrict_frame_run [OF f1 n1, of team ht] obtain a2 st2 where
    r2: "restrict_frame team ht a1 st1 = (Inr a2, st2)"
    and f2: "frames st2 a2 = Some (Athletes (restrict_to team ht ?summer))"
    and e2: "extends st1 st2" and n2: "a2 < next_id st2"
    by blast
  from restrict_frame_run [OF f2 n2, of sport sp] obtain a3 st3 where
    r3: "restrict_frame sport sp a2 st2 = (Inr a3, st3)"
    and f3: "frames st3 a3 = Some (Athletes (line_filter tbl ht sp))"
    and e3: "extends st2 st3" and n3: "a3 < next_id st3"
    unfolding line_filter_def by blast
  let ?ac = "group_sizes (\<lambda>r. (year r, sex r)) (line_filter tbl ht sp)"
  have "groupby_year_sex_size (Athletes (line_filter tbl ht sp)) = Inr (YearSexCounts ?ac)"
    by (simp add: groupby_year_sex_size_def)
  from new_frame_run [where f = groupby_year_sex_size, OF f3 this] obtain a4 st4 where
    r4: "new_frame groupby_year_sex_size a3 st3 = (Inr a4, st4)"
    and f4: "frames st4 a4 = Some (YearSexCounts ?ac)"
    and e4: "extends st3 st4" and n4: "a4 < next_id st4"
    by blast
  from add_traces_run [OF f4 n4, of "zip [''F'', ''M''] [''darkblue'', ''darkred'']"] obtain st5 where
    r5: "add_traces a4 (zip [''F'', ''M''] [''darkblue'', ''darkred'']) st4
        = (Inr (map (gender_trace ?ac) (zip [''F'', ''M''] [''darkblue'', ''darkred''])), st5)"
    and e5: "extends st4 st5"
    by blast
  have "update_line_chart_obj df hover_data y sp st = (update_line_chart tbl hover_data y sp, st5)"
    unfolding update_line_chart_obj_def update_line_chart_def Inr
    by (simp add: then_do_def r1 r2 r3 r4 r5 done_with_def Let_def
        del: zip_Cons_Cons zip.simps list.map)
  moreover have "extends st st5" using e1 e2 e3 e4 e5 by (blast intro: extends_trans)
  ultimately show ?thesis by (rule that)
qed

lemma update_sunburst_obj_run:
  assumes "frames st df = Some (Athletes tbl)" and "df < next_id st"
  obtains st' where
    "update_sunburst_obj df hover_data y sp st = (update_sunburst tbl hover_data y sp, st')"
    and "extends st st'"
proof (cases "hovered_team_sunburst hover_data")
  case (Inl e)
  then have "update_sunburst_obj df hover_data y sp st = (update_sunburst tbl hover_data y sp, st)"
    by (simp add: update_sunburst_obj_def update_sunburst_def raise_def)
  then show ?thesis by (rule that) simp
next
  case (Inr ht)
  let ?sel = "filter (\<lambda>r. year r = y \<and> season r = ''Summer'') tbl"
  have "boolean_index (\<lambda>r. year r = y \<and> season r = ''Summer'') (Athletes tbl) = Inr (Athletes ?sel)"
    by (simp add: boolean_index_def)
  from new_frame_run [where f = "boolean_index P" for P, OF assms(1) this] obtain a1 st1 where
    r1: "new_frame (boolean_index (\<lambda>r. year r = y \<and> season r = ''Summer'')) df st = (Inr a1, st1)"
    and f1: "frames st1 a1 = Some (Athletes ?sel)"
    and e1: "extends st st1" and n1: "a1 < next_id st1"
    by blast
  from restrict_frame_run [OF f1 n1, of team ht] obtain a2 st2 where
    r2: "restrict_frame team ht a1 st1 = (Inr a2, st2)"
    and f2: "frames st2 a2 = Some (Athletes (restrict_to team ht ?sel))"
    and e2: "extends st1 st2" and n2: "a2 < next_id st2"
    by blast
  from restrict_frame_run [OF f2 n2, of sport sp] obtain a3 st3 where
    r3: "restrict_frame sport sp a2 st2 = (Inr a3, st3)"
    and f3: "frames st3 a3 = Some (Athletes (sunburst_filter tbl ht y sp))"
    and e3: "extends st2 st3" and n3: "a3 < next_id st3"
    unfolding sunburst_filter_def by blast
  let ?mc = "group_sizes (\<lambda>k. k) (sex_medal_keys (sunburst_filter tbl ht y sp))"
  have "groupby_sex_medal_size (Athletes (sunburst_filter tbl ht y sp)) = Inr (SexMedalCounts ?mc)"
    by (simp add: groupby_sex_medal_size_def)
  from new_frame_run [where f = groupby_sex_medal_size, OF f3 this] obtain a4 st4 where
    r4: "new_frame groupby_sex_medal_size a3 st3 = (Inr a4, st4)"
    and f4: "frames st4 a4 = Some (SexMedalCounts ?mc)"
    and e4: "extends st3 st4"
    by blast
  have "update_sunburst_obj df hover_data y sp st = (update_sunburst tbl hover_data y sp, st4)"
    unfolding update_sunburst_obj_def update_sunburst_def Inr
    by (simp add: then_do_def r1 r2 r3 r4 read_frame_run [OF f4] done_with_def Let_def)
  moreover have "extends st st4" using e1 e2 e3 e4 by (blast intro: extends_trans)
  ultimately show ?thesis by (rule that)
qed

text \<open>
  C7. Let the store hold the table at the address \<open>df\<close>. The aggregator returns a frame
  whose content is \<open>calculate_team_stats\<close> of the table, the year and the sport, whatever
  else the store holds; a second call on the store that the first one left returns a
  frame of the same content and leaves the first result as it was. Each of the three
  builders returns the value of its function of the table and the selection. After
  every one of these runs the table, and every other frame that existed before the run,
  is unchanged: the runs only add frames.
\<close>

theorem aggregates_are_pure:
  assumes "frames st df = Some (Athletes tbl)" and "df < next_id st"
  shows "(\<exists>a st' a2 st2.
            calculate_team_stats_obj df y sp st = (Inr a, st')
          \<and> frames st' a = Some (TeamStats (calculate_team_stats tbl y sp))
          \<and> frames st' df = Some (Athletes tbl) \<and> extends st st'
          \<and> calculate_team_stats_obj df y sp st' = (Inr a2, st2)
          \<and> frames st2 a2 = Some (TeamStats (calculate_team_stats tbl y sp))
          \<and> frames st2 a = Some (TeamStats (calculate_team_stats tbl y sp))
          \<and> frames st2 df = Some (Athletes tbl) \<and> extends st' st2)
       \<and> (\<exists>st'. update_map_obj df y sp st = (update_map tbl y sp, st')
             \<and> frames st' df = Some (Athletes tbl) \<and> extends st st')
       \<and> (\<exists>st'. update_line_chart_obj df h y sp st = (update_line_chart tbl h y sp, st')
             \<and> frames st' df = Some (Athletes tbl) \<and> extends st st')
       \<and> (\<exists>st'. update_sunburst_obj df h y sp st = (update_sunburst tbl h y sp, st')
             \<and> frames st' df = Some (Athletes tbl) \<and> extends st st')"
proof -
  have keep: "frames st' df = Some (Athletes tbl)" if "extends st st'" for st'
    using that assms by (simp add: extends_frame)
  from calculate_team_stats_obj_run [OF assms, of y sp] obtain a st' where
    r1: "calculate_team_stats_obj df y sp st = (Inr a, st')"
    and f1: "frames st' a = Some (TeamStats (calculate_team_stats tbl y sp))"
    and e1: "extends st st'" and n1: "a < next_id st'"
    by blast
  have d1: "frames st' df = Some (Athletes tbl)" using e1 by (rule keep)
  have dn: "df < next_id st'" using e1 assms(2) by (rule extends_next)
  from calculate_team_stats_obj_run [OF d1 dn, of y sp] obtain a2 st2 where
    r2: "calculate_team_stats_obj df y sp st' = (Inr a2, st2)"
    and f2: "frames st2 a2 = Some (TeamStats (calculate_team_stats tbl y sp))"
    and e2: "extends st' st2"
    by blast
  have f12: "frames st2 a = Some (TeamStats (calculate_team_stats tbl y sp))"
    using e2 n1 f1 by (simp add: extends_frame)
  have d2: "frames st2 df = Some (Athletes tbl)"
    using e2 dn d1 by (simp add: extends_frame)
  from r1 f1 d1 e1 r2 f2 f12 d2 e2 have agg: "\<exists>a st' a2 st2.
            calculate_team_stats_obj df y sp st = (Inr a, st')
          \<and> frames st' a = Some (TeamStats (calculate_team_stats tbl y sp))
          \<and> frames st' df = Some (Athletes tbl) \<and> extends st st'
          \<and> calculate_team_stats_obj df y sp st' = (Inr a2, st2)
          \<and> frames st2 a2 = Some (TeamStats (calculate_team_stats tbl y sp))
          \<and> frames st2 a = Some (TeamStats (calculate_team_stats tbl y sp))
          \<and> frames st2 df = Some (Athletes tbl) \<and> extends st' st2"
    by blast
  have m: "\<exists>st'. update_map_obj df y sp st = (update_map tbl y sp, st')
             \<and> frames st' df = Some (Athletes tbl) \<and> extends st st'"
    using update_map_obj_run [OF assms, of y sp] keep by metis
  have l: "\<exists>st'. update_line_chart_obj df h y sp st = (update_line_chart tbl h y sp, st')
             \<and> frames st' df = Some (Athletes tbl) \<and> extends st st'"
    using update_line_chart_obj_run [OF assms, of h y sp] keep by metis
  have s: "\<exists>st'. update_sunburst_obj df h y sp st = (update_sunburst tbl h y sp, st')
             \<and> frames st' df = Some (Athletes tbl) \<and> extends st st'"
    using update_sunburst_obj_run [OF assms, of h y sp] keep by metis
  from agg m l s show ?thesis by (intro conjI)
qed

theorem aggregates_are_pure_witness:
  "frames (table_store [judoka, rower]) 0 = Some (Athletes [judoka, rower])
   \<and> 0 < next_id (table_store [judoka, rower])
   \<and> (\<exists>a st'. calculate_team_stats_obj 0 2012 None (table_store [judoka, rower]) = (Inr a, st')
         \<and> frames st' a = Some (TeamStats
              [\<lparr>stats_team = ''Chile'', total_athletes = 1, female_athletes = 0,
                female_percentage = Num 0\<rparr>,
               \<lparr>stats_team = ''France'', total_athletes = 1, female_athletes = 1,
                female_percentage = Num 100\<rparr>])
         \<and> frames st' 0 = Some (Athletes [judoka, rower]))"
proof -
  have h1: "frames (table_store [judoka, rower]) 0 = Some (Athletes [judoka, rower])"
    and h2: "0 < next_id (table_store [judoka, rower])"
    by (simp_all add: table_store_def)
  have v: "calculate_team_stats [judoka, rower] 2012 None
      = [\<lparr>stats_team = ''Chile'', total_athletes = 1, female_athletes = 0,
                female_percentage = Num 0\<rparr>,
               \<lparr>stats_team = ''France'', total_athletes = 1, female_athletes = 1,
                female_percentage = Num 100\<rparr>]"
    by (simp add: calculate_team_stats_def team_stats_filter_def restrict_to_def judoka_def
        rower_def group_keys_def team_agg_def group_rows_def fdiv_def Let_def)
  from aggregates_are_pure [OF h1 h2, of 2012 None None] obtain a st' where
    "calculate_team_stats_obj 0 2012 None (table_store [judoka, rower]) = (Inr a, st')"
    "frames st' a = Some (TeamStats (calculate_team_stats [judoka, rower] 2012 None))"
    "frames st' 0 = Some (Athletes [judoka, rower])"
    by blast
  with h1 h2 show ?thesis unfolding v by blast
qed

end
